theory Spec2Isabelle
  imports Complex_Main "HOL-Library.Log_Nat"
begin

section \<open>Python values\<close>

text \<open>
  The two scripts \<^verbatim>\<open>ETL_BankData.py\<close> and \<^verbatim>\<open>ETL_GDP.py\<close> are embedded as HOL functions.
  Every exception the scripts can raise is a value of \<open>error\<close>; a computation that may raise
  returns \<open>error + 'a\<close> with \<open>Inl\<close> for the exception.
\<close>

datatype error = ValueError | IndexError | KeyError | TypeError
  | RequestException | OSError | OperationalError

text \<open>\<^verbatim>\<open>str(e)\<close> as it is interpolated into log messages: the text of a library's exception is
  represented by the name of its class.\<close>

fun str_error :: "error \<Rightarrow> string" where
  "str_error ValueError = ''ValueError''"
| "str_error IndexError = ''IndexError''"
| "str_error KeyError = ''KeyError''"
| "str_error TypeError = ''TypeError''"
| "str_error RequestException = ''RequestException''"
| "str_error OSError = ''OSError''"
| "str_error OperationalError = ''OperationalError''"

subsection \<open>Strings\<close>

text \<open>
  A Python \<^verbatim>\<open>str\<close> taken from the document is a list of Unicode code points, so that
  \<^verbatim>\<open>strip\<close>, \<^verbatim>\<open>in\<close> and \<^verbatim>\<open>replace\<close> count what Python counts. String literals of the
  source (column names, log messages) are ASCII and are kept as \<open>string\<close>; \<open>u\<close> turns such a
  literal into code points.
\<close>

type_synonym pystr = "nat list"

definition u :: "string \<Rightarrow> pystr" where
  "u s = map of_char s"

text \<open>The em-dash U+2014, the "no data" marker of the GDP table.\<close>

definition em_dash :: nat where
  "em_dash = 8212"

text \<open>\<^verbatim>\<open>str.isspace\<close> for one code point.\<close>

definition isspace :: "nat \<Rightarrow> bool" where
  "isspace c \<longleftrightarrow> (9 \<le> c \<and> c \<le> 13) \<or> (28 \<le> c \<and> c \<le> 32) \<or> c = 133 \<or> c = 160
     \<or> c = 5760 \<or> (8192 \<le> c \<and> c \<le> 8202) \<or> c = 8232 \<or> c = 8233 \<or> c = 8239
     \<or> c = 8287 \<or> c = 12288"

definition strip :: "pystr \<Rightarrow> pystr" where
  "strip s = rev (dropWhile isspace (rev (dropWhile isspace s)))"

text \<open>\<^verbatim>\<open>s.replace(",", "")\<close>, and the regex replacement \<^verbatim>\<open>{',': ''}\<close> on one string.\<close>

definition remove_commas :: "pystr \<Rightarrow> pystr" where
  "remove_commas s = filter (\<lambda>c. c \<noteq> 44) s"

text \<open>\<^verbatim>\<open>str(n)\<close> for a non-negative integer.\<close>

fun str_nat :: "nat \<Rightarrow> string" where
  "str_nat n = (if n < 10 then [''0123456789'' ! n]
                else str_nat (n div 10) @ [''0123456789'' ! (n mod 10)])"

declare str_nat.simps [simp del]

text \<open>Indexing a Python list with a non-negative index.\<close>

definition index :: "'a list \<Rightarrow> nat \<Rightarrow> error + 'a" where
  "index xs i = (if i < length xs then Inr (xs ! i) else Inl IndexError)"

subsection \<open>Floats\<close>

text \<open>
  A Python float is a binary64 number: a finite value, an infinity or NaN. A finite value is
  kept as the rational number it denotes, and every operation rounds its exact result to
  binary64 with \<open>fl\<close>. The two zeros of binary64 are one value here; no result of the scripts
  depends on the sign of a zero.
\<close>

datatype pyfloat = Finite rat | PosInf | NegInf | NaN

text \<open>\<^verbatim>\<open>numpy.rint\<close>, and the rounding of a quotient to an integer: the nearest integer, a tie
  going to the even one.\<close>

definition rint :: "rat \<Rightarrow> int" where
  "rint q = (let f = \<lfloor>q\<rfloor>; d = q - of_int f
             in if d < 1 / 2 then f else if 1 / 2 < d then f + 1
                else if even f then f else f + 1)"

text \<open>The binary exponent of a positive rational: \<open>2 powi ilog2 q \<le> q < 2 powi (ilog2 q + 1)\<close>.\<close>

definition ilog2 :: "rat \<Rightarrow> int" where
  "ilog2 q = (if 1 \<le> q then int (floorlog 2 (nat \<lfloor>q\<rfloor>)) - 1
              else - int (floorlog 2 (nat (\<lceil>1 / q\<rceil> - 1))))"

text \<open>
  Rounding to binary64, to nearest with ties to even: the result is a multiple of \<open>2 powi e\<close>
  where \<open>e\<close> leaves 53 significant bits, and is no smaller than \<open>- 1074\<close>, the exponent of the
  subnormal numbers. A result of magnitude \<open>2 powi 1024\<close> or more is an infinity.
\<close>

definition fl :: "rat \<Rightarrow> pyfloat" where
  "fl q = (if q = 0 then Finite 0
           else let e = max (ilog2 \<bar>q\<bar> - 52) (- 1074);
                    r = of_int (rint (q / 2 powi e)) * 2 powi e
                in if 2 powi 1024 \<le> \<bar>r\<bar> then (if 0 < q then PosInf else NegInf)
                   else Finite r)"

fun fsgn :: "pyfloat \<Rightarrow> int" where
  "fsgn (Finite a) = (if a = 0 then 0 else if 0 < a then 1 else - 1)"
| "fsgn PosInf = 1"
| "fsgn NegInf = - 1"
| "fsgn NaN = 0"

text \<open>\<^verbatim>\<open>x * y\<close>.\<close>

fun fmul :: "pyfloat \<Rightarrow> pyfloat \<Rightarrow> pyfloat" where
  "fmul (Finite a) (Finite b) = fl (a * b)"
| "fmul NaN y = NaN"
| "fmul x NaN = NaN"
| "fmul x y = (let s = fsgn x * fsgn y
               in if s = 0 then NaN else if 0 < s then PosInf else NegInf)"

text \<open>\<^verbatim>\<open>x / d\<close> for a positive finite constant \<open>d\<close>; the source divides by \<^verbatim>\<open>1e3\<close> and
  \<^verbatim>\<open>1000\<close> only.\<close>

fun truediv :: "pyfloat \<Rightarrow> rat \<Rightarrow> pyfloat" where
  "truediv (Finite a) d = fl (a / d)"
| "truediv x d = x"

text \<open>\<^verbatim>\<open>.round(2)\<close> on a float: numpy multiplies by 100, applies \<^verbatim>\<open>rint\<close> and divides by 100,
  each of the two operations rounding to binary64.\<close>

fun round2 :: "pyfloat \<Rightarrow> pyfloat" where
  "round2 (Finite a) = (case fl (a * 100) of Finite y \<Rightarrow> fl (of_int (rint y) / 100) | z \<Rightarrow> z)"
| "round2 x = x"

subsection \<open>Parsing a float\<close>

text \<open>
  \<^verbatim>\<open>float(s)\<close> on a string. CPython first turns the string into ASCII: a code point below
  128 stays, a Unicode space becomes a blank, a Unicode decimal digit becomes the ASCII digit
  of its value, and at the first other code point the string ends with a question mark. Of
  the result the surrounding ASCII whitespace is ignored; what remains is an optional sign and
  either \<^verbatim>\<open>inf\<close>, \<^verbatim>\<open>infinity\<close>, \<^verbatim>\<open>nan\<close> in any case or a decimal number with optional fraction
  and exponent, digits grouped by single underscores. Anything else raises \<^verbatim>\<open>ValueError\<close>.
  The number is rounded to binary64.
\<close>

text \<open>The code points of the digit zero in the scripts of Unicode 14 (general category Nd);
  the nine code points after each are its digits one to nine.\<close>

definition decimal_zeros :: "nat list" where
  "decimal_zeros = [48, 1632, 1776, 1984, 2406, 2534, 2662, 2790, 2918, 3046, 3174, 3302, 3430,
     3558, 3664, 3792, 3872, 4160, 4240, 6112, 6160, 6470, 6608, 6784, 6800, 6992, 7088, 7232,
     7248, 42528, 43216, 43264, 43472, 43504, 43600, 44016, 65296, 66720, 68912, 69734, 69872,
     69942, 70096, 70384, 70736, 70864, 71248, 71360, 71472, 71904, 72016, 72784, 73040, 73120,
     92768, 92864, 93008, 120782, 120792, 120802, 120812, 120822, 123200, 123632, 125264,
     130032]"

definition to_decimal :: "nat \<Rightarrow> nat option" where
  "to_decimal c = (case filter (\<lambda>z. z \<le> c \<and> c < z + 10) decimal_zeros of
                     [] \<Rightarrow> None | z # zs \<Rightarrow> Some (c - z))"

fun to_ascii :: "pystr \<Rightarrow> pystr" where
  "to_ascii [] = []"
| "to_ascii (c # cs) =
     (if c < 128 then c # to_ascii cs
      else if isspace c then 32 # to_ascii cs
      else case to_decimal c of None \<Rightarrow> [63] | Some d \<Rightarrow> (48 + d) # to_ascii cs)"

text \<open>ASCII whitespace, and the string without it at both ends.\<close>

definition py_isspace :: "nat \<Rightarrow> bool" where
  "py_isspace c \<longleftrightarrow> (9 \<le> c \<and> c \<le> 13) \<or> c = 32"

definition strip_ascii :: "pystr \<Rightarrow> pystr" where
  "strip_ascii s = rev (dropWhile py_isspace (rev (dropWhile py_isspace s)))"

text \<open>The ASCII digits, the digits of the grammar.\<close>

definition isdigit :: "nat \<Rightarrow> bool" where
  "isdigit c \<longleftrightarrow> 48 \<le> c \<and> c \<le> 57"

definition lower :: "nat \<Rightarrow> nat" where
  "lower c = (if 65 \<le> c \<and> c \<le> 90 then c + 32 else c)"

fun digitpart :: "pystr \<Rightarrow> bool" where
  "digitpart [] = False"
| "digitpart [c] = isdigit c"
| "digitpart (c # d # cs) = (isdigit c \<and> (if d = 95 then digitpart cs else digitpart (d # cs)))"

definition digits_val :: "pystr \<Rightarrow> nat" where
  "digits_val s = foldl (\<lambda>n c. 10 * n + (c - 48)) 0 (filter isdigit s)"

definition split_on :: "(nat \<Rightarrow> bool) \<Rightarrow> pystr \<Rightarrow> pystr \<times> pystr option" where
  "split_on p s = (takeWhile (\<lambda>c. \<not> p c) s,
                   case dropWhile (\<lambda>c. \<not> p c) s of [] \<Rightarrow> None | c # r \<Rightarrow> Some r)"

definition split_sign :: "pystr \<Rightarrow> bool \<times> pystr" where
  "split_sign s = (case s of [] \<Rightarrow> (False, [])
                   | c # r \<Rightarrow> if c = 45 then (True, r) else if c = 43 then (False, r)
                            else (False, s))"

definition parse_number :: "pystr \<Rightarrow> rat option" where
  "parse_number s =
     (let (m, ex) = split_on (\<lambda>c. c = 101 \<or> c = 69) s;
          (ip, fp) = split_on (\<lambda>c. c = 46) m;
          ok = (case fp of None \<Rightarrow> digitpart ip
                | Some f \<Rightarrow> (ip = [] \<or> digitpart ip) \<and> (f = [] \<or> digitpart f)
                             \<and> \<not> (ip = [] \<and> f = []));
          fd = (case fp of None \<Rightarrow> [] | Some f \<Rightarrow> filter isdigit f);
          mant = of_nat (digits_val (ip @ fd)) / 10 ^ length fd
      in if \<not> ok then None
         else case ex of None \<Rightarrow> Some mant
              | Some e \<Rightarrow>
                  (let (neg, ed) = split_sign e
                   in if digitpart ed
                      then Some (if neg then mant / 10 ^ digits_val ed
                                 else mant * 10 ^ digits_val ed)
                      else None))"

definition py_float :: "pystr \<Rightarrow> error + pyfloat" where
  "py_float s =
     (let (neg, r) = split_sign (strip_ascii (to_ascii s)); l = map lower r
      in if l = u ''inf'' \<or> l = u ''infinity'' then Inr (if neg then NegInf else PosInf)
         else if l = u ''nan'' then Inr NaN
         else case parse_number r of None \<Rightarrow> Inl ValueError
              | Some q \<Rightarrow> Inr (fl (if neg then - q else q)))"

section \<open>The parsed document\<close>

text \<open>
  The scripts read the page through three BeautifulSoup queries only:
  \<^verbatim>\<open>soup.find_all("tbody")\<close>, \<^verbatim>\<open>tbody.find_all("tr")\<close> and \<^verbatim>\<open>row.find_all("td")\<close>. A document
  is therefore the list of its table bodies, a table body the list of its rows, a row the
  list of its \<^verbatim>\<open>td\<close> cells. A cell has its \<^verbatim>\<open>.text\<close> and, when it contains a link, the
  \<^verbatim>\<open>.contents\<close> of its first \<^verbatim>\<open>a\<close> element (the children of a link are text nodes).
\<close>

record td =
  td_text :: pystr
  td_a :: "pystr list option"

type_synonym tr = "td list"
type_synonym tbody = "tr list"
type_synonym document = "tbody list"

section \<open>Data frames\<close>

text \<open>
  A pandas \<^verbatim>\<open>DataFrame\<close> is the ordered list of its columns, each a name with one value per
  row. A value is a string or a float.
\<close>

datatype val = Str pystr | Num pyfloat

type_synonym series = "val list"
type_synonym dataframe = "(string \<times> series) list"

text \<open>\<^verbatim>\<open>len(df)\<close>: the number of rows.\<close>

definition len :: "dataframe \<Rightarrow> nat" where
  "len df = (case df of [] \<Rightarrow> 0 | (c, vs) # cols \<Rightarrow> length vs)"

text \<open>\<^verbatim>\<open>df[c]\<close> raises \<^verbatim>\<open>KeyError\<close> for a column that is not there.\<close>

definition getitem :: "dataframe \<Rightarrow> string \<Rightarrow> error + series" where
  "getitem df c = (case map_of df c of None \<Rightarrow> Inl KeyError | Some vs \<Rightarrow> Inr vs)"

text \<open>\<^verbatim>\<open>df[c] = vs\<close> replaces the column in place when it exists and appends it otherwise.\<close>

fun setitem :: "dataframe \<Rightarrow> string \<Rightarrow> series \<Rightarrow> dataframe" where
  "setitem [] c vs = [(c, vs)]"
| "setitem ((k, ws) # df) c vs = (if k = c then (k, vs) # df else (k, ws) # setitem df c vs)"

text \<open>\<^verbatim>\<open>df.rename(columns={old: new})\<close> keeps every column where it is.\<close>

definition rename :: "dataframe \<Rightarrow> string \<Rightarrow> string \<Rightarrow> dataframe" where
  "rename df old new = map (\<lambda>(k, vs). (if k = old then new else k, vs)) df"

text \<open>\<^verbatim>\<open>df.drop(columns=[c])\<close> raises \<^verbatim>\<open>KeyError\<close> for a column that is not there.\<close>

definition drop_column :: "dataframe \<Rightarrow> string \<Rightarrow> error + dataframe" where
  "drop_column df c = (if c \<in> fst ` set df then Inr (filter (\<lambda>(k, vs). k \<noteq> c) df)
                       else Inl KeyError)"

text \<open>Arithmetic on a column: a string in it raises \<^verbatim>\<open>TypeError\<close>.\<close>

fun series_mul :: "series \<Rightarrow> pyfloat \<Rightarrow> error + pyfloat list" where
  "series_mul [] r = Inr []"
| "series_mul (Str s # vs) r = Inl TypeError"
| "series_mul (Num x # vs) r =
     (case series_mul vs r of Inl e \<Rightarrow> Inl e | Inr ys \<Rightarrow> Inr (fmul x r # ys))"

fun series_div :: "series \<Rightarrow> rat \<Rightarrow> error + pyfloat list" where
  "series_div [] d = Inr []"
| "series_div (Str s # vs) d = Inl TypeError"
| "series_div (Num x # vs) d =
     (case series_div vs d of Inl e \<Rightarrow> Inl e | Inr ys \<Rightarrow> Inr (truediv x d # ys))"

text \<open>The values of a column of floats, as \<^verbatim>\<open>.round\<close> needs them.\<close>

fun floats :: "series \<Rightarrow> error + pyfloat list" where
  "floats [] = Inr []"
| "floats (Str s # vs) = Inl TypeError"
| "floats (Num x # vs) = (case floats vs of Inl e \<Rightarrow> Inl e | Inr ys \<Rightarrow> Inr (x # ys))"

text \<open>\<^verbatim>\<open>.round(2)\<close> on a float column.\<close>

definition series_round :: "pyfloat list \<Rightarrow> pyfloat list" where
  "series_round xs = map round2 xs"

section \<open>Logging of the bank script\<close>

datatype level = INFO | WARNING | ERROR | CRITICAL

type_synonym log = "(level \<times> string) list"

section \<open>The bank script: extraction\<close>

text \<open>
  \<^verbatim>\<open>pd.DataFrame(banks)\<close> for the list of dictionaries that \<^verbatim>\<open>extract_data\<close> builds; each has
  the keys \<^verbatim>\<open>"Bank Name"\<close> and \<^verbatim>\<open>"Market Cap (USD)"\<close>, kept here as a pair. An empty list
  gives a frame with no columns.
\<close>

definition DataFrame :: "(pystr \<times> pyfloat) list \<Rightarrow> dataframe" where
  "DataFrame banks =
     (if banks = [] then []
      else [(''Bank Name'', map (\<lambda>b. Str (fst b)) banks),
            (''Market Cap (USD)'', map (\<lambda>b. Num (snd b)) banks)])"

text \<open>The loop over the rows, with the list \<^verbatim>\<open>banks\<close> as accumulator.\<close>

fun extract_rows :: "tr list \<Rightarrow> (pystr \<times> pyfloat) list \<Rightarrow> error + (pystr \<times> pyfloat) list" where
  "extract_rows [] banks = Inr banks"
| "extract_rows (cols # rows) banks =
     (if cols \<noteq> [] then
        (case index cols 1 of Inl e \<Rightarrow> Inl e
         | Inr c1 \<Rightarrow>
             (let bank_name = strip (td_text c1)
              in case index cols 2 of Inl e \<Rightarrow> Inl e
                 | Inr c2 \<Rightarrow>
                     (case py_float (remove_commas (strip (td_text c2))) of Inl e \<Rightarrow> Inl e
                      | Inr market_cap_usd \<Rightarrow>
                          extract_rows rows (banks @ [(bank_name, market_cap_usd)]))))
      else extract_rows rows banks)"

text \<open>
  \<^verbatim>\<open>extract_data(url)\<close>. The argument is what \<^verbatim>\<open>requests.get(url)\<close> and the parser give for
  the URL: the document, or the exception of the request.
\<close>

definition extract_data :: "error + document \<Rightarrow> log \<times> (error + dataframe)" where
  "extract_data response =
     (let started = [(INFO, ''Starting data extraction.'')];
          result =
            (case response of Inl e \<Rightarrow> Inl e
             | Inr table \<Rightarrow>
                 (case index table 0 of Inl e \<Rightarrow> Inl e
                  | Inr rows \<Rightarrow>
                      (case extract_rows rows [] of Inl e \<Rightarrow> Inl e
                       | Inr banks \<Rightarrow> Inr (DataFrame banks))))
      in case result of
           Inl e \<Rightarrow> (started @ [(ERROR, ''Error during extraction: '' @ str_error e)], Inl e)
         | Inr df \<Rightarrow>
             (started @ [(INFO, ''Extracted '' @ str_nat (len df) @ '' rows successfully.'')],
              Inr df))"

section \<open>The bank script: transformation\<close>

text \<open>
  The exchange-rate file as \<^verbatim>\<open>pd.read_csv\<close> returns it: the rows of its columns
  \<^verbatim>\<open>Currency\<close> and \<^verbatim>\<open>Rate\<close>, the rate read as a float.
\<close>

type_synonym conversion_rates = "(pystr \<times> pyfloat) list"

text \<open>\<^verbatim>\<open>conversion_rates.loc[conversion_rates["Currency"] == currency, "Rate"]\<close>.\<close>

definition rate_row :: "conversion_rates \<Rightarrow> string \<Rightarrow> pyfloat list" where
  "rate_row conversion_rates currency =
     map snd (filter (\<lambda>row. fst row = u currency) conversion_rates)"

definition currencies :: "string list" where
  "currencies = [''GBP'', ''EUR'', ''INR'']"

definition market_cap :: "string \<Rightarrow> string" where
  "market_cap currency = ''Market Cap ('' @ currency @ '')''"

text \<open>The loop over the currencies; an exception leaves the loop with the log so far.\<close>

fun convert :: "string list \<Rightarrow> conversion_rates \<Rightarrow> dataframe \<Rightarrow> log \<Rightarrow> log \<times> (error + dataframe)" where
  "convert [] conversion_rates df lg = (lg, Inr df)"
| "convert (currency # cs) conversion_rates df lg =
     (case rate_row conversion_rates currency of
        [] \<Rightarrow> convert cs conversion_rates df
                (lg @ [(WARNING, ''No conversion rate found for '' @ currency @ ''. Skipping.'')])
      | rate # rates \<Rightarrow>
          (case getitem df ''Market Cap (USD)'' of Inl e \<Rightarrow> (lg, Inl e)
           | Inr col \<Rightarrow>
               (case series_mul col rate of Inl e \<Rightarrow> (lg, Inl e)
                | Inr converted \<Rightarrow>
                    convert cs conversion_rates
                      (setitem df (market_cap currency) (map Num (series_round converted))) lg)))"

text \<open>
  \<^verbatim>\<open>transform_data(df, conversion_file)\<close>. The second argument is what
  \<^verbatim>\<open>pd.read_csv(conversion_file)\<close> gives: the table, or the exception of the read.
\<close>

definition transform_data :: "dataframe \<Rightarrow> error + conversion_rates \<Rightarrow> log \<times> (error + dataframe)" where
  "transform_data df conversion_file =
     (let started = [(INFO, ''Starting data transformation.'')];
          (lg, result) =
            (case conversion_file of Inl e \<Rightarrow> (started, Inl e)
             | Inr conversion_rates \<Rightarrow>
                 (case convert currencies conversion_rates df started of
                    (lg, Inl e) \<Rightarrow> (lg, Inl e)
                  | (lg, Inr df1) \<Rightarrow>
                      (case getitem df1 ''Market Cap (USD)'' of Inl e \<Rightarrow> (lg, Inl e)
                       | Inr col \<Rightarrow>
                           (case series_div col 1000 of Inl e \<Rightarrow> (lg, Inl e)
                            | Inr billions \<Rightarrow>
                                (lg, Inr (rename
                                   (setitem df1 ''Market Cap (USD)''
                                      (map Num (series_round billions)))
                                   ''Market Cap (USD)'' ''MC_USD_Billion''))))))
      in case result of
           Inl e \<Rightarrow> (lg @ [(ERROR, ''Error during transformation: '' @ str_error e)], Inl e)
         | Inr df' \<Rightarrow> (lg @ [(INFO, ''Data transformation completed successfully.'')], Inr df'))"

section \<open>The relational store\<close>

text \<open>
  A database is the map from table names to table contents. \<^verbatim>\<open>df.to_sql\<close> with
  \<^verbatim>\<open>if_exists="replace"\<close> drops the table when it exists, creates it with the frame's columns
  and inserts the frame's rows.
\<close>

type_synonym database = "string \<Rightarrow> dataframe option"

definition drop_table :: "database \<Rightarrow> string \<Rightarrow> database" where
  "drop_table con name = con(name := None)"

definition create_table :: "database \<Rightarrow> string \<Rightarrow> string list \<Rightarrow> database" where
  "create_table con name cols = con(name \<mapsto> map (\<lambda>c. (c, [])) cols)"

definition insert_rows :: "database \<Rightarrow> string \<Rightarrow> dataframe \<Rightarrow> database" where
  "insert_rows con name df =
     (case con name of None \<Rightarrow> con
      | Some tbl \<Rightarrow> con(name \<mapsto> map (\<lambda>(col, new). (fst col, snd col @ snd new)) (zip tbl df)))"

definition to_sql :: "dataframe \<Rightarrow> string \<Rightarrow> database \<Rightarrow> database" where
  "to_sql df name con =
     (let dropped = (case con name of None \<Rightarrow> con | Some tbl \<Rightarrow> drop_table con name)
      in insert_rows (create_table dropped name (map fst df)) name df)"

section \<open>The outside world\<close>

text \<open>
  What the calls that leave the program answer during one run: the request for the page, the
  read of the exchange-rate file, the write of the CSV file, the connections to the database
  file, the write of the table and each query. \<open>None\<close> is success, \<open>Some e\<close> the exception
  raised. The text of the CSV file and the printed query results are not part of the model.
\<close>

record world =
  w_page :: "error + document"
  w_exchange_rate :: "error + conversion_rates"
  w_to_csv :: "error option"
  w_connect :: "error option"
  w_to_sql :: "error option"
  w_connect_queries :: "error option"
  w_read_sql :: "string \<Rightarrow> error option"

section \<open>The bank script: loading, queries and main\<close>

definition csv_file_path :: string where
  "csv_file_path = ''./bank.csv''"

definition db_table :: string where
  "db_table = ''Largest_banks''"

definition load_to_csv :: "world \<Rightarrow> dataframe \<Rightarrow> string \<Rightarrow> log \<times> (error + unit)" where
  "load_to_csv w df file_path =
     (let started = [(INFO, ''Starting CSV loading.'')]
      in case w_to_csv w of
           Some e \<Rightarrow> (started @ [(ERROR, ''Error during CSV loading: '' @ str_error e)], Inl e)
         | None \<Rightarrow> (started @ [(INFO, ''Data saved to CSV file at '' @ file_path @ ''.'')], Inr ()))"

text \<open>\<^verbatim>\<open>load_to_db(df, database_file, table_name)\<close>; \<open>con\<close> is the database kept in the file.\<close>

definition load_to_db :: "world \<Rightarrow> dataframe \<Rightarrow> database \<Rightarrow> string \<Rightarrow> log \<times> (error + database)" where
  "load_to_db w df con table_name =
     (let started = [(INFO, ''Starting database loading.'')];
          result = (case w_connect w of Some e \<Rightarrow> Inl e
                    | None \<Rightarrow> (case w_to_sql w of Some e \<Rightarrow> Inl e
                               | None \<Rightarrow> Inr (to_sql df table_name con)))
      in case result of
           Inl e \<Rightarrow> (started @ [(ERROR, ''Error during database loading: '' @ str_error e)], Inl e)
         | Inr con' \<Rightarrow>
             (started @ [(INFO, ''Data loaded to database table '' @ [CHR 0x27] @ table_name
                                @ [CHR 0x27] @ ''.'')], Inr con'))"

definition run_queries :: "world \<Rightarrow> string \<Rightarrow> log \<times> (error + unit)" where
  "run_queries w query_statement =
     (let started = [(INFO, ''Running query: '' @ query_statement)]
      in case w_read_sql w query_statement of
           Some e \<Rightarrow> (started @ [(ERROR, ''Error executing query: '' @ str_error e)], Inl e)
         | None \<Rightarrow> (started @ [(INFO, ''Query executed successfully.'')], Inr ()))"

definition queries :: "string list" where
  "queries = [''SELECT * FROM Largest_banks'',
              ''SELECT AVG(`Market Cap (GBP)`) AS Avg_MC_GBP_Billion FROM Largest_banks'',
              ''SELECT `Bank Name` FROM Largest_banks LIMIT 5'']"

text \<open>The three calls of \<^verbatim>\<open>run_queries\<close> in a row; the first exception ends them.\<close>

fun run_all :: "world \<Rightarrow> string list \<Rightarrow> log \<times> (error + unit)" where
  "run_all w [] = ([], Inr ())"
| "run_all w (q # qs) =
     (case run_queries w q of
        (lg, Inl e) \<Rightarrow> (lg, Inl e)
      | (lg, Inr done) \<Rightarrow> (case run_all w qs of (lg', r) \<Rightarrow> (lg @ lg', r)))"

text \<open>The body of the \<^verbatim>\<open>try\<close> block of \<^verbatim>\<open>main\<close>: the log, the database and the outcome.\<close>

definition main_try :: "world \<Rightarrow> database \<Rightarrow> log \<times> database \<times> (error + unit)" where
  "main_try w con =
     (case extract_data (w_page w) of
        (l1, Inl e) \<Rightarrow> (l1, con, Inl e)
      | (l1, Inr df) \<Rightarrow>
     (case transform_data df (w_exchange_rate w) of
        (l2, Inl e) \<Rightarrow> (l1 @ l2, con, Inl e)
      | (l2, Inr df') \<Rightarrow>
     (case load_to_csv w df' csv_file_path of
        (l3, Inl e) \<Rightarrow> (l1 @ l2 @ l3, con, Inl e)
      | (l3, Inr saved) \<Rightarrow>
     (case load_to_db w df' con db_table of
        (l4, Inl e) \<Rightarrow> (l1 @ l2 @ l3 @ l4, con, Inl e)
      | (l4, Inr con') \<Rightarrow>
     (case w_connect_queries w of
        Some e \<Rightarrow> (l1 @ l2 @ l3 @ l4, con', Inl e)
      | None \<Rightarrow>
     (case run_all w queries of
        (l5, Inl e) \<Rightarrow>
          (l1 @ l2 @ l3 @ l4 @ [(INFO, ''SQL Connection established for running queries.'')] @ l5,
           con', Inl e)
      | (l5, Inr done) \<Rightarrow>
          (l1 @ l2 @ l3 @ l4 @ [(INFO, ''SQL Connection established for running queries.'')] @ l5
             @ [(INFO, ''ETL process and queries completed successfully.'')],
           con', Inr ())))))))"

text \<open>\<^verbatim>\<open>main()\<close>: the last component is what reaches the caller, \<open>Inl e\<close> for an exception
  that leaves \<^verbatim>\<open>main\<close>.\<close>

definition main :: "world \<Rightarrow> database \<Rightarrow> log \<times> database \<times> (error + unit)" where
  "main w con =
     (case main_try w con of
        (lg, con', Inl e) \<Rightarrow>
          ((INFO, ''ETL process initiated.'') # lg
             @ [(CRITICAL, ''ETL process failed: '' @ str_error e)], con', Inr ())
      | (lg, con', Inr done) \<Rightarrow> ((INFO, ''ETL process initiated.'') # lg, con', Inr ()))"

section \<open>The log files\<close>

text \<open>The clock reading that \<^verbatim>\<open>datetime.now()\<close> and the logging module take for one event.\<close>

record datetime =
  dt_year :: nat
  dt_month :: nat
  dt_day :: nat
  dt_hour :: nat
  dt_minute :: nat
  dt_second :: nat

definition pad2 :: "nat \<Rightarrow> string" where
  "pad2 n = (if n < 10 then CHR ''0'' # str_nat n else str_nat n)"

definition month_abbr :: "nat \<Rightarrow> string" where
  "month_abbr m = [''Jan'', ''Feb'', ''Mar'', ''Apr'', ''May'', ''Jun'',
                   ''Jul'', ''Aug'', ''Sep'', ''Oct'', ''Nov'', ''Dec''] ! (m - 1)"

text \<open>\<^verbatim>\<open>now.strftime('%Y-%h-%d-%H:%M:%S')\<close>.\<close>

definition timestamp :: "datetime \<Rightarrow> string" where
  "timestamp now = str_nat (dt_year now) @ ''-'' @ month_abbr (dt_month now) @ ''-''
     @ pad2 (dt_day now) @ ''-'' @ pad2 (dt_hour now) @ '':'' @ pad2 (dt_minute now)
     @ '':'' @ pad2 (dt_second now)"

text \<open>
  \<^verbatim>\<open>log_progress(message)\<close> of the GDP script; the last argument is the text of
  \<^verbatim>\<open>./etl_project_log.txt\<close> before the call (empty when the file does not exist), the result
  its text after: mode \<^verbatim>\<open>"a"\<close> writes at the end.
\<close>

definition log_progress :: "datetime \<Rightarrow> string \<Rightarrow> string \<Rightarrow> string" where
  "log_progress now message f = f @ (timestamp now @ '' : '' @ message @ [CHR 0x0A])"

text \<open>The bank script's handler: \<^verbatim>\<open>datefmt="%Y-%m-%d %H:%M:%S"\<close> and
  \<^verbatim>\<open>format="%(asctime)s - %(levelname)s - %(message)s"\<close>, the file opened for appending.\<close>

definition asctime :: "datetime \<Rightarrow> string" where
  "asctime now = str_nat (dt_year now) @ ''-'' @ pad2 (dt_month now) @ ''-''
     @ pad2 (dt_day now) @ '' '' @ pad2 (dt_hour now) @ '':'' @ pad2 (dt_minute now)
     @ '':'' @ pad2 (dt_second now)"

fun levelname :: "level \<Rightarrow> string" where
  "levelname INFO = ''INFO''"
| "levelname WARNING = ''WARNING''"
| "levelname ERROR = ''ERROR''"
| "levelname CRITICAL = ''CRITICAL''"

definition emit :: "datetime \<Rightarrow> level \<times> string \<Rightarrow> string \<Rightarrow> string" where
  "emit now event f =
     f @ (asctime now @ '' - '' @ levelname (fst event) @ '' - '' @ snd event @ [CHR 0x0A])"

section \<open>The GDP script\<close>

text \<open>
  The functions of \<^verbatim>\<open>ETL_GDP.py\<close> carry the prefix \<open>gdp\<close>. Each returns, beside its result,
  the messages it passes to \<^verbatim>\<open>log_progress\<close>, in order.
\<close>

text \<open>\<^verbatim>\<open>pd.concat([df, pd.DataFrame(data_dict, index=[0])], ignore_index=True)\<close>: the row is
  added under the frame's columns, a column without a value in the row getting NaN; keys of
  the row that are no columns yet become new columns, NaN in the earlier rows.\<close>

definition concat_row :: "dataframe \<Rightarrow> (string \<times> val) list \<Rightarrow> dataframe" where
  "concat_row df data_dict =
     map (\<lambda>col. (fst col, snd col @ [case map_of data_dict (fst col) of
                                        None \<Rightarrow> Num NaN | Some v \<Rightarrow> v])) df
     @ map (\<lambda>kv. (fst kv, replicate (len df) (Num NaN) @ [snd kv]))
         (filter (\<lambda>kv. map_of df (fst kv) = None) data_dict)"

fun gdp_extract_rows :: "tr list \<Rightarrow> dataframe \<Rightarrow> error + dataframe" where
  "gdp_extract_rows [] df = Inr df"
| "gdp_extract_rows (col # rows) df =
     (if length col \<noteq> 0 then
        (case index col 0 of Inl e \<Rightarrow> Inl e
         | Inr c0 \<Rightarrow>
             (case td_a c0 of None \<Rightarrow> gdp_extract_rows rows df
              | Some contents \<Rightarrow>
                  (case index col 2 of Inl e \<Rightarrow> Inl e
                   | Inr c2 \<Rightarrow>
                       if em_dash \<notin> set (strip (td_text c2)) then
                         (case index contents 0 of Inl e \<Rightarrow> Inl e
                          | Inr country \<Rightarrow>
                              gdp_extract_rows rows
                                (concat_row df [(''Country'', Str country),
                                                (''GDP_USD_millions'', Str (strip (td_text c2)))]))
                       else gdp_extract_rows rows df)))
      else gdp_extract_rows rows df)"

definition gdp_extract :: "error + document \<Rightarrow> string list \<Rightarrow> string list \<times> (error + dataframe)" where
  "gdp_extract response table_attribs =
     (let result =
            (case response of Inl e \<Rightarrow> Inl e
             | Inr tables \<Rightarrow>
                 (case index tables 2 of Inl e \<Rightarrow> Inl e
                  | Inr rows \<Rightarrow> gdp_extract_rows rows (map (\<lambda>c. (c, [])) table_attribs)))
      in case result of
           Inl e \<Rightarrow> ([''Error in data extraction: '' @ str_error e], Inl e)
         | Inr df \<Rightarrow> ([], Inr df))"

text \<open>\<^verbatim>\<open>.replace({',': ''}, regex=True)\<close> changes the strings of the column and leaves its other
  values; \<^verbatim>\<open>.astype(float)\<close> parses each string.\<close>

fun replace_commas :: "val \<Rightarrow> val" where
  "replace_commas (Str s) = Str (remove_commas s)"
| "replace_commas (Num x) = Num x"

fun astype_float :: "series \<Rightarrow> error + pyfloat list" where
  "astype_float [] = Inr []"
| "astype_float (v # vs) =
     (case (case v of Str s \<Rightarrow> py_float s | Num x \<Rightarrow> Inr x) of Inl e \<Rightarrow> Inl e
      | Inr x \<Rightarrow> (case astype_float vs of Inl e \<Rightarrow> Inl e | Inr xs \<Rightarrow> Inr (x # xs)))"

definition gdp_transform :: "dataframe \<Rightarrow> string list \<times> (error + dataframe)" where
  "gdp_transform df =
     (let result =
            (case getitem df ''GDP_USD_millions'' of Inl e \<Rightarrow> Inl e
             | Inr col \<Rightarrow>
                 (case astype_float (map replace_commas col) of Inl e \<Rightarrow> Inl e
                  | Inr millions \<Rightarrow>
                      (case drop_column
                              (setitem df ''GDP_USD_billions''
                                 (map (\<lambda>x. Num (truediv x 1000)) millions))
                              ''GDP_USD_millions'' of Inl e \<Rightarrow> Inl e
                       | Inr df1 \<Rightarrow>
                           (case getitem df1 ''GDP_USD_billions'' of Inl e \<Rightarrow> Inl e
                            | Inr col1 \<Rightarrow>
                                (case floats col1 of Inl e \<Rightarrow> Inl e
                                 | Inr billions \<Rightarrow>
                                     Inr (setitem df1 ''GDP_USD_billions''
                                            (map Num (series_round billions))))))))
      in case result of
           Inl e \<Rightarrow> ([''Error in transformation: '' @ str_error e], Inl e)
         | Inr df' \<Rightarrow> ([], Inr df'))"

definition gdp_load_to_csv :: "world \<Rightarrow> dataframe \<Rightarrow> string \<Rightarrow> string list \<times> (error + unit)" where
  "gdp_load_to_csv w df csv_path =
     (case w_to_csv w of
        Some e \<Rightarrow> ([''Error in saving to CSV: '' @ str_error e], Inl e)
      | None \<Rightarrow> ([''Data saved to CSV file: '' @ csv_path], Inr ()))"

definition gdp_load_to_db :: "world \<Rightarrow> dataframe \<Rightarrow> database \<Rightarrow> string \<Rightarrow> string list \<times> (error + database)" where
  "gdp_load_to_db w df sql_connection table_name =
     (case w_to_sql w of
        Some e \<Rightarrow> ([''Error in saving to Database: '' @ str_error e], Inl e)
      | None \<Rightarrow> ([''Data loaded to Database as table: '' @ table_name],
                 Inr (to_sql df table_name sql_connection)))"

definition gdp_run_query :: "world \<Rightarrow> string \<Rightarrow> string list \<times> (error + unit)" where
  "gdp_run_query w query_statement =
     (case w_read_sql w query_statement of
        Some e \<Rightarrow> ([''Error in running query: '' @ str_error e], Inl e)
      | None \<Rightarrow> ([], Inr ()))"

definition table_attribs :: "string list" where
  "table_attribs = [''Country'', ''GDP_USD_millions'']"

definition table_name :: string where
  "table_name = ''Countries_by_GDP''"

definition csv_path :: string where
  "csv_path = ''./Countries_by_GDP.csv''"

text \<open>\<^verbatim>\<open>main()\<close> of the GDP script; it has no \<^verbatim>\<open>try\<close>.\<close>

definition gdp_main :: "world \<Rightarrow> database \<Rightarrow> string list \<times> database \<times> (error + unit)" where
  "gdp_main w con =
     (let l0 = [''Preliminaries complete. Initiating ETL process'']
      in case gdp_extract (w_page w) table_attribs of
        (l1, Inl e) \<Rightarrow> (l0 @ l1, con, Inl e)
      | (l1, Inr df) \<Rightarrow>
     (let l2 = [''Data extraction complete. Initiating Transformation process'']
      in case gdp_transform df of
        (l3, Inl e) \<Rightarrow> (l0 @ l1 @ l2 @ l3, con, Inl e)
      | (l3, Inr df') \<Rightarrow>
     (let l4 = [''Data transformation complete. Initiating loading process'']
      in case gdp_load_to_csv w df' csv_path of
        (l5, Inl e) \<Rightarrow> (l0 @ l1 @ l2 @ l3 @ l4 @ l5, con, Inl e)
      | (l5, Inr saved) \<Rightarrow>
     (case w_connect w of
        Some e \<Rightarrow> (l0 @ l1 @ l2 @ l3 @ l4 @ l5, con, Inl e)
      | None \<Rightarrow>
     (let l6 = [''SQL Connection initiated.'']
      in case gdp_load_to_db w df' con table_name of
        (l7, Inl e) \<Rightarrow> (l0 @ l1 @ l2 @ l3 @ l4 @ l5 @ l6 @ l7, con, Inl e)
      | (l7, Inr con') \<Rightarrow>
     (case gdp_run_query w (''SELECT * from '' @ table_name @ '' WHERE GDP_USD_billions >= 100'') of
        (l8, Inl e) \<Rightarrow> (l0 @ l1 @ l2 @ l3 @ l4 @ l5 @ l6 @ l7 @ l8, con', Inl e)
      | (l8, Inr done) \<Rightarrow>
          (l0 @ l1 @ l2 @ l3 @ l4 @ l5 @ l6 @ l7 @ l8 @ [''Process Complete.''], con', Inr ())))))))"

section \<open>Notions used to state the results\<close>

text \<open>The column that the loop of \<^verbatim>\<open>transform_data\<close> adds for one currency, and the warning it
  logs for it, by the rows that the exchange-rate table has for the currency.\<close>

definition converted :: "conversion_rates \<Rightarrow> (pystr \<times> pyfloat) list \<Rightarrow> string \<Rightarrow> dataframe" where
  "converted conversion_rates banks currency =
     (case rate_row conversion_rates currency of [] \<Rightarrow> []
      | rate # rates \<Rightarrow>
          [(market_cap currency, map (\<lambda>b. Num (round2 (fmul (snd b) rate))) banks)])"

definition warned :: "conversion_rates \<Rightarrow> string \<Rightarrow> log" where
  "warned conversion_rates currency =
     (case rate_row conversion_rates currency of
        [] \<Rightarrow> [(WARNING, ''No conversion rate found for '' @ currency @ ''. Skipping.'')]
      | rate # rates \<Rightarrow> [])"

text \<open>The characters of which a decimal number consists.\<close>

definition float_char :: "nat \<Rightarrow> bool" where
  "float_char c \<longleftrightarrow> isdigit c \<or> c = 95 \<or> c = 46 \<or> c = 101 \<or> c = 69 \<or> c = 43 \<or> c = 45"


text \<open>A row whose numeric cell, the third, contains the "no data" marker.\<close>

definition sentinel_row :: "tr \<Rightarrow> bool" where
  "sentinel_row cols \<longleftrightarrow> 2 < length cols \<and> em_dash \<in> set (td_text (cols ! 2))"

text \<open>What a record of the bank script has from the row it was made of.\<close>

definition from_row :: "tr \<Rightarrow> pystr \<times> pyfloat \<Rightarrow> bool" where
  "from_row cols b \<longleftrightarrow> 3 \<le> length cols \<and> fst b = strip (td_text (cols ! 1))
     \<and> py_float (remove_commas (strip (td_text (cols ! 2)))) = Inr (snd b)"

text \<open>The rows that the GDP script takes, and what a record has from its row.\<close>

definition gdp_takes :: "tr \<Rightarrow> bool" where
  "gdp_takes col \<longleftrightarrow> 3 \<le> length col \<and> td_a (col ! 0) \<noteq> None
     \<and> em_dash \<notin> set (strip (td_text (col ! 2)))"

definition gdp_from_row :: "tr \<Rightarrow> pystr \<times> pystr \<Rightarrow> bool" where
  "gdp_from_row col r \<longleftrightarrow> 3 \<le> length col
     \<and> (case td_a (col ! 0) of None \<Rightarrow> False
        | Some contents \<Rightarrow> contents \<noteq> [] \<and> fst r = contents ! 0)
     \<and> snd r = strip (td_text (col ! 2)) \<and> em_dash \<notin> set (snd r)"

text \<open>The frame of the GDP script that holds the given records.\<close>

definition gdp_frame :: "(pystr \<times> pystr) list \<Rightarrow> dataframe" where
  "gdp_frame recs = [(''Country'', map (\<lambda>r. Str (fst r)) recs),
                     (''GDP_USD_millions'', map (\<lambda>r. Str (snd r)) recs)]"

section \<open>Concrete inputs\<close>

text \<open>A run in which no call to the outside fails.\<close>

definition quiet :: world where
  "quiet = \<lparr>w_page = Inr [], w_exchange_rate = Inr [], w_to_csv = None, w_connect = None,
            w_to_sql = None, w_connect_queries = None, w_read_sql = (\<lambda>q. None)\<rparr>"

text \<open>A run in which the request for the page fails.\<close>

definition offline :: world where
  "offline = quiet\<lparr>w_page := Inl RequestException\<rparr>"

text \<open>8 September 2023, 09:16:35.\<close>

definition a_morning :: datetime where
  "a_morning = \<lparr>dt_year = 2023, dt_month = 9, dt_day = 8, dt_hour = 9, dt_minute = 16,
                 dt_second = 35\<rparr>"

definition one_bank :: dataframe where
  "one_bank = [(''Bank Name'', [Str (u ''Bank A'')]), (''MC_USD_Billion'', [Num (Finite 1)])]"

text \<open>A cell without a link, and a cell that holds a link with the same text.\<close>

definition cell :: "string \<Rightarrow> td" where
  "cell s = \<lparr>td_text = u s, td_a = None\<rparr>"

definition link_cell :: "string \<Rightarrow> td" where
  "link_cell s = \<lparr>td_text = u s, td_a = Some [u s]\<rparr>"

definition dash_cell :: td where
  "dash_cell = \<lparr>td_text = [em_dash], td_a = None\<rparr>"

text \<open>The table of the scenario, each row as rank, name and market capitalisation; the same
  with its rows as the two cells of the scenario; and the table without the row of Bank B.\<close>

definition three_rows :: "tr list" where
  "three_rows = [[cell ''1'', cell ''Bank A'', cell ''1,000.00''],
                 [cell ''2'', cell ''Bank B'', dash_cell],
                 [cell ''3'', cell ''Bank C'', cell ''500.50'']]"

definition three_pairs :: "tr list" where
  "three_pairs = [[cell ''Bank A'', cell ''1,000.00''],
                  [cell ''Bank B'', dash_cell],
                  [cell ''Bank C'', cell ''500.50'']]"

definition two_rows :: "tr list" where
  "two_rows = [[cell ''1'', cell ''Bank A'', cell ''1,000.00''],
               [cell ''3'', cell ''Bank C'', cell ''500.50'']]"

definition two_banks :: "(pystr \<times> pyfloat) list" where
  "two_banks = [(u ''Bank A'', Finite 1000), (u ''Bank C'', Finite (1001 / 2))]"

text \<open>The exchange-rate table with the one rate 0.79.\<close>

definition gbp_only :: conversion_rates where
  "gbp_only = [(u ''GBP'', fl (79 / 100))]"

text \<open>The records of a GDP frame with one country.\<close>

definition india :: "(pystr \<times> pystr) list" where
  "india = [(u ''India'', u ''3,736,882'')]"

text \<open>A row with a blank name and a negative number.\<close>

definition odd_row :: tr where
  "odd_row = [cell ''1'', cell '' '', cell ''-5'']"

text \<open>GDP rows: a country with a figure, a country with the marker, a total without link.\<close>

definition gdp_rows :: "tr list" where
  "gdp_rows = [[link_cell ''India'', cell ''Asia'', cell ''3,736,882''],
               [link_cell ''Tuvalu'', cell ''Oceania'', dash_cell],
               [cell ''World'', cell '' '', cell ''105,568,776'']]"

section \<open>Rounding to binary64\<close>

lemma ilog2_bounds:
  assumes "0 < q"
  shows "2 powi (ilog2 q) \<le> q \<and> q < 2 powi (ilog2 q + 1)"
proof (cases "1 \<le> q")
  case True
  define n where "n = nat \<lfloor>q\<rfloor>"
  have n: "0 < n" using True by (simp add: n_def)
  have nq: "rat_of_nat n \<le> q" "q < rat_of_nat n + 1"
    using True by (simp_all add: n_def) linarith+
  from floorlog_bounds [of n 2] n have b: "2 ^ (floorlog 2 n - 1) \<le> n" "n < 2 ^ floorlog 2 n"
    by simp_all
  have f1: "1 \<le> floorlog 2 n" using n by (simp add: floorlog_def)
  have i: "ilog2 q = int (floorlog 2 n) - 1" using True by (simp add: ilog2_def n_def)
  have "2 powi (ilog2 q) = (2::rat) ^ (floorlog 2 n - 1)"
    using f1 by (simp add: i power_int_def nat_diff_distrib)
  also have "\<dots> = rat_of_nat (2 ^ (floorlog 2 n - 1))" by simp
  also have "\<dots> \<le> rat_of_nat n" using b(1) by (simp only: of_nat_le_iff)
  finally have lo: "2 powi (ilog2 q) \<le> q" using nq by linarith
  have "n + 1 \<le> 2 ^ floorlog 2 n" using b(2) by simp
  then have "rat_of_nat (n + 1) \<le> rat_of_nat (2 ^ floorlog 2 n)" by (simp only: of_nat_le_iff)
  then have "rat_of_nat n + 1 \<le> 2 ^ floorlog 2 n" by simp
  moreover have "2 powi (ilog2 q + 1) = (2::rat) ^ floorlog 2 n" by (simp add: i)
  ultimately have "q < 2 powi (ilog2 q + 1)" using nq by linarith
  with lo show ?thesis by simp
next
  case False
  define r where "r = 1 / q"
  have r1: "1 < r" using False assms by (simp add: r_def)
  define m where "m = nat (\<lceil>r\<rceil> - 1)"
  have c2: "2 \<le> \<lceil>r\<rceil>" using r1 by linarith
  then have m: "0 < m" "int m = \<lceil>r\<rceil> - 1" by (simp_all add: m_def)
  have rm: "rat_of_nat m < r" "r \<le> rat_of_nat m + 1"
  proof -
    have "rat_of_int (\<lceil>r\<rceil> - 1) < r" by linarith
    moreover have "r \<le> rat_of_int \<lceil>r\<rceil>" by linarith
    moreover have "rat_of_nat m = rat_of_int (\<lceil>r\<rceil> - 1)" using m(2) by (metis of_int_of_nat_eq)
    ultimately show "rat_of_nat m < r" "r \<le> rat_of_nat m + 1" by simp_all
  qed
  define c where "c = floorlog 2 m"
  from floorlog_bounds [of m 2] m have b: "2 ^ (c - 1) \<le> m" "m < 2 ^ c"
    by (simp_all add: c_def)
  have c1: "1 \<le> c" using m by (simp add: c_def floorlog_def)
  have i: "ilog2 q = - int c" using False by (simp add: ilog2_def c_def m_def r_def)
  have "m + 1 \<le> 2 ^ c" using b(2) by simp
  then have "rat_of_nat (m + 1) \<le> rat_of_nat (2 ^ c)" by (simp only: of_nat_le_iff)
  then have "r \<le> 2 ^ c" using rm by simp
  then have "1 / 2 ^ c \<le> q" using assms by (simp add: r_def field_simps)
  moreover have "2 powi (ilog2 q) = 1 / (2::rat) ^ c"
    by (simp add: i power_int_minus_divide)
  ultimately have lo: "2 powi (ilog2 q) \<le> q" by simp
  have "rat_of_nat (2 ^ (c - 1)) \<le> rat_of_nat m" using b(1) by (simp only: of_nat_le_iff)
  then have "(2::rat) ^ (c - 1) \<le> rat_of_nat m" by simp
  then have "(2::rat) ^ (c - 1) < r" using rm by linarith
  then have "q < 1 / 2 ^ (c - 1)" using assms by (simp add: r_def field_simps)
  moreover have "2 powi (ilog2 q + 1) = 1 / (2::rat) ^ (c - 1)"
  proof -
    have "ilog2 q + 1 = - int (c - 1)" using c1 i by simp
    then show ?thesis by (simp only: power_int_minus_divide power_int_of_nat)
  qed
  ultimately show ?thesis using lo by simp
qed

lemma ilog2_unique:
  assumes "0 < q" "2 powi e \<le> q" "q < 2 powi (e + 1)"
  shows "ilog2 q = e"
proof (rule ccontr)
  assume n: "ilog2 q \<noteq> e"
  from ilog2_bounds [OF assms(1)] have b: "2 powi (ilog2 q) \<le> q" "q < 2 powi (ilog2 q + 1)"
    by simp_all
  show False
  proof (cases "ilog2 q < e")
    case True
    then have "ilog2 q + 1 \<le> e" by simp
    then have "(2::rat) powi (ilog2 q + 1) \<le> 2 powi e" by (intro power_int_increasing) simp_all
    with b(2) assms(2) show False by linarith
  next
    case False
    with n have "e + 1 \<le> ilog2 q" by simp
    then have "(2::rat) powi (e + 1) \<le> 2 powi (ilog2 q)" by (intro power_int_increasing) simp_all
    with b(1) assms(3) show False by linarith
  qed
qed

lemma rint_error: "\<bar>of_int (rint z) - z\<bar> \<le> 1 / 2"
proof -
  have f: "rat_of_int \<lfloor>z\<rfloor> \<le> z" "z < rat_of_int \<lfloor>z\<rfloor> + 1" by linarith+
  show ?thesis
  proof (cases "z - of_int \<lfloor>z\<rfloor> < 1 / 2")
    case True
    then have "rint z = \<lfloor>z\<rfloor>" by (simp add: rint_def)
    with f True show ?thesis by simp
  next
    case False
    then have "rint z = \<lfloor>z\<rfloor> \<and> z - of_int \<lfloor>z\<rfloor> = 1 / 2 \<or> rint z = \<lfloor>z\<rfloor> + 1"
      by (auto simp: rint_def Let_def)
    then show ?thesis
    proof
      assume "rint z = \<lfloor>z\<rfloor> \<and> z - of_int \<lfloor>z\<rfloor> = 1 / 2"
      then show ?thesis by simp
    next
      assume "rint z = \<lfloor>z\<rfloor> + 1"
      then have "rat_of_int (rint z) = rat_of_int \<lfloor>z\<rfloor> + 1" by simp
      with f False show ?thesis by linarith
    qed
  qed
qed

lemma rint_near:
  assumes "\<bar>z - of_int k\<bar> < 1 / 2"
  shows "rint z = k"
proof -
  have "\<bar>of_int (rint z) - z\<bar> \<le> 1 / 2" by (rule rint_error)
  with assms have "\<bar>rat_of_int (rint z) - rat_of_int k\<bar> < 1" by linarith
  then have "\<bar>rat_of_int (rint z - k)\<bar> < 1" by simp
  then have "\<bar>rint z - k\<bar> < 1" by (metis of_int_abs of_int_less_1_iff)
  then show ?thesis by simp
qed

lemma rint_of_int: "rint (of_int k) = k"
  by (rule rint_near) simp

lemma rint_between:
  "of_int k \<le> q \<Longrightarrow> q < of_int k + 1 \<Longrightarrow>
   rint q = (if q - of_int k < 1 / 2 then k else if 1 / 2 < q - of_int k then k + 1
             else if even k then k else k + 1)"
  by (simp add: rint_def floor_unique)

lemma fl_eqI:
  assumes "q \<noteq> 0" "2 powi (e + 52) \<le> \<bar>q\<bar>" "\<bar>q\<bar> < 2 powi (e + 53)" "- 1074 \<le> e"
    "rint (q / 2 powi e) = m" "\<bar>rat_of_int m * 2 powi e\<bar> < 2 powi 1024"
  shows "fl q = Finite (of_int m * 2 powi e)"
proof -
  have "ilog2 \<bar>q\<bar> = e + 52"
    using assms(1-3) by (intro ilog2_unique) (simp_all add: add.assoc)
  then have "max (ilog2 \<bar>q\<bar> - 52) (- 1074) = e" using assms(4) by simp
  then show ?thesis using assms(1,5,6) by (simp add: fl_def Let_def)
qed


text \<open>A rational with 53 significant bits above the subnormal range, given by the integer part
  \<open>k\<close> of its multiple of \<open>2 ^ n\<close>, rounds to the nearest multiple of \<open>1 / 2 ^ n\<close>.\<close>

lemma fl_small:
  assumes "q \<noteq> 0" "2 ^ 52 \<le> \<bar>q\<bar> * 2 ^ n" "\<bar>q\<bar> * 2 ^ n < 2 ^ 53" "n \<le> 1074"
    "rat_of_int k \<le> q * 2 ^ n" "q * 2 ^ n < rat_of_int k + 1"
  shows "fl q = Finite (of_int (if q * 2 ^ n - of_int k < 1 / 2 then k
                                else if 1 / 2 < q * 2 ^ n - of_int k then k + 1
                                else if even k then k else k + 1) / 2 ^ n)"
proof -
  define m where "m = rint (q * 2 ^ n)"
  have p: "(2::rat) powi (- int n) = 1 / 2 ^ n" by (simp add: power_int_minus_divide)
  have a: "2 powi (- int n + 52) \<le> \<bar>q\<bar>"
  proof -
    have "(2::rat) powi (- int n + 52) = 2 powi (- int n) * 2 powi 52"
      by (rule power_int_add) simp
    also have "\<dots> = 2 ^ 52 / 2 ^ n" by (simp add: p)
    also have "\<dots> \<le> \<bar>q\<bar>" using assms(2) by (simp add: field_simps)
    finally show ?thesis .
  qed
  have b: "\<bar>q\<bar> < 2 powi (- int n + 53)"
  proof -
    have "\<bar>q\<bar> < 2 ^ 53 / 2 ^ n" using assms(3) by (simp add: field_simps)
    also have "\<dots> = 2 powi (- int n) * 2 powi 53" by (simp add: p)
    also have "\<dots> = (2::rat) powi (- int n + 53)"
      by (rule power_int_add [symmetric]) simp
    finally show ?thesis .
  qed
  have c: "- 1074 \<le> - int n" using assms(4) by simp
  have d: "rint (q / 2 powi (- int n)) = m" by (simp add: m_def p)
  have "\<bar>rat_of_int m - q * 2 ^ n\<bar> \<le> 1 / 2" unfolding m_def by (rule rint_error)
  then have "\<bar>rat_of_int m\<bar> \<le> \<bar>q * 2 ^ n\<bar> + 1 / 2" by linarith
  also have "\<dots> < 2 ^ 53 + 1 / 2" using assms(3) by (simp add: abs_mult)
  finally have mb: "\<bar>rat_of_int m\<bar> < 2 ^ 54" by simp
  have "\<bar>rat_of_int m * 2 powi (- int n)\<bar> = \<bar>rat_of_int m\<bar> / 2 ^ n" by (simp add: p abs_mult)
  also have "\<dots> \<le> \<bar>rat_of_int m\<bar>" by (simp add: divide_le_eq_1 field_simps mult_le_cancel_left1)
  also have "\<dots> < 2 powi 1024" using mb by simp
  finally have e: "\<bar>rat_of_int m * 2 powi (- int n)\<bar> < 2 powi 1024" .
  from fl_eqI [OF assms(1) a b c d e] have "fl q = Finite (of_int m / 2 ^ n)" by (simp add: p)
  moreover have "m = (if q * 2 ^ n - of_int k < 1 / 2 then k
                                else if 1 / 2 < q * 2 ^ n - of_int k then k + 1
                                else if even k then k else k + 1)"
    unfolding m_def using assms(5,6) by (rule rint_between)
  ultimately show ?thesis by simp
qed

section \<open>Rounding to two places\<close>



section \<open>The store\<close>

lemma zip_created:
  "map (\<lambda>(col, new). (fst col, snd col @ snd new)) (zip (map (\<lambda>c. (c, [])) (map fst df)) df) = df"
  by (induction df) auto

lemma to_sql_eq: "to_sql df name con = con(name \<mapsto> df)"
  unfolding to_sql_def insert_rows_def create_table_def drop_table_def Let_def
  by (simp add: zip_created del: map_map split: option.splits)

text \<open>
  C5. Loading is idempotent in both scripts: when a load of \<open>df\<close> into the table has
  succeeded, a second load of \<open>df\<close> in the same circumstances leaves the database as the first
  one left it, and the table holds exactly the columns and rows of \<open>df\<close>: nothing is
  appended.
\<close>

theorem load_to_db_idempotent:
  "(snd (load_to_db w df con name) = Inr con1
      \<longrightarrow> snd (load_to_db w df con1 name) = Inr con1 \<and> con1 name = Some df)
   \<and> (snd (gdp_load_to_db w df con name) = Inr con2
      \<longrightarrow> snd (gdp_load_to_db w df con2 name) = Inr con2 \<and> con2 name = Some df)"
  by (auto simp: load_to_db_def gdp_load_to_db_def to_sql_eq Let_def split: option.splits)

theorem load_to_db_idempotent_witness:
  "snd (load_to_db quiet one_bank (\<lambda>t. None) db_table) = Inr [db_table \<mapsto> one_bank]
   \<and> snd (load_to_db quiet one_bank [db_table \<mapsto> one_bank] db_table) = Inr [db_table \<mapsto> one_bank]
   \<and> snd (gdp_load_to_db quiet one_bank [db_table \<mapsto> one_bank] db_table)
       = Inr [db_table \<mapsto> one_bank]
   \<and> [db_table \<mapsto> one_bank] db_table = Some one_bank"
proof -
  have b: "snd (load_to_db quiet one_bank (\<lambda>t. None) db_table) = Inr [db_table \<mapsto> one_bank]"
    by (simp add: load_to_db_def quiet_def to_sql_def insert_rows_def create_table_def one_bank_def)
  have g: "snd (gdp_load_to_db quiet one_bank (\<lambda>t. None) db_table) = Inr [db_table \<mapsto> one_bank]"
    by (simp add: gdp_load_to_db_def quiet_def to_sql_def insert_rows_def create_table_def
        one_bank_def)
  show ?thesis
    using load_to_db_idempotent [of quiet one_bank "\<lambda>t. None" db_table "[db_table \<mapsto> one_bank]"
        "[db_table \<mapsto> one_bank]"] b g
    by simp
qed

section \<open>The log lines\<close>

lemma str_nat_digit: "n < 10 \<Longrightarrow> length (str_nat n) = 1"
  by (simp add: str_nat.simps)

lemma length_pad2: "n < 100 \<Longrightarrow> length (pad2 n) = 2"
  by (simp add: pad2_def str_nat.simps [of n] str_nat_digit)

lemma length_year:
  assumes "1000 \<le> n" "n < 10000"
  shows "length (str_nat n) = 4"
proof -
  have "\<not> n < 10" "\<not> n div 10 < 10" "\<not> n div 10 div 10 < 10" "n div 10 div 10 div 10 < 10"
    using assms by arith+
  then show ?thesis
    by (simp add: str_nat.simps [of n] str_nat.simps [of "n div 10"]
        str_nat.simps [of "n div 10 div 10"] str_nat_digit)
qed

lemma length_month_abbr: "1 \<le> m \<Longrightarrow> m \<le> 12 \<Longrightarrow> length (month_abbr m) = 3"
proof -
  assume "1 \<le> m" "m \<le> 12"
  then have "m = 1 \<or> m = 2 \<or> m = 3 \<or> m = 4 \<or> m = 5 \<or> m = 6 \<or> m = 7 \<or> m = 8 \<or> m = 9
      \<or> m = 10 \<or> m = 11 \<or> m = 12" by arith
  then show ?thesis by (auto simp: month_abbr_def)
qed

text \<open>
  C9, as the code has it. In the GDP script an event appends the one line
  \<open>timestamp : message\<close> to the log file, the timestamp being year, month name, day, hour,
  minute and second in twenty characters. In the bank script an event appends the line
  \<open>asctime - LEVEL - message\<close>, the time being nineteen characters with the month as a number.
  Both leave the earlier text of the file in place.
\<close>

theorem log_line_format:
  assumes "1000 \<le> dt_year now" "dt_year now < 10000" "1 \<le> dt_month now" "dt_month now \<le> 12"
    "dt_day now < 100" "dt_hour now < 100" "dt_minute now < 100" "dt_second now < 100"
  shows "log_progress now message f = f @ timestamp now @ '' : '' @ message @ [CHR 0x0A]
       \<and> length (timestamp now) = 20
       \<and> emit now (lvl, message) f
           = f @ asctime now @ '' - '' @ levelname lvl @ '' - '' @ message @ [CHR 0x0A]
       \<and> length (asctime now) = 19"
  using assms
  by (simp add: log_progress_def emit_def timestamp_def asctime_def length_pad2 length_year
      length_month_abbr)

theorem log_line_format_witness:
  "log_progress a_morning ''Process Complete.'' ''x''
     = ''x2023-Sep-08-09:16:35 : Process Complete.'' @ [CHR 0x0A]
   \<and> emit a_morning (INFO, ''ETL process initiated.'') ''x''
       = ''x2023-09-08 09:16:35 - INFO - ETL process initiated.'' @ [CHR 0x0A]"
proof -
  have t: "timestamp a_morning = ''2023-Sep-08-09:16:35''"
    by (simp add: timestamp_def a_morning_def str_nat.simps pad2_def month_abbr_def)
  have a: "asctime a_morning = ''2023-09-08 09:16:35''"
    by (simp add: asctime_def a_morning_def str_nat.simps pad2_def)
  show ?thesis
    using log_line_format [of a_morning "''Process Complete.''" "''x''" INFO]
      log_line_format [of a_morning "''ETL process initiated.''" "''x''" INFO] t a
    by (simp add: a_morning_def)
qed

text \<open>
  C9 as stated fails in the bank script: its line for the event "Starting data extraction."
  has the level between time and message and no \<open>" : "\<close>.
\<close>

theorem bank_log_line_counterexample:
  "emit a_morning (INFO, ''Starting data extraction.'') []
     = ''2023-09-08 09:16:35 - INFO - Starting data extraction.'' @ [CHR 0x0A]
   \<and> emit a_morning (INFO, ''Starting data extraction.'') []
     \<noteq> asctime a_morning @ '' : '' @ ''Starting data extraction.'' @ [CHR 0x0A]"
  by (simp add: emit_def asctime_def a_morning_def str_nat.simps pad2_def)

section \<open>Errors that reach main\<close>

text \<open>
  C8, as the code has it. The bank script's \<^verbatim>\<open>main\<close> returns normally in every run, and when
  a stage has raised \<open>e\<close> the last thing it logs is \<open>e\<close> at level CRITICAL. The GDP script's
  \<^verbatim>\<open>main\<close> has no handler: the exception of each of its stages (extraction, transformation,
  CSV file, connection, table write, query) leaves \<^verbatim>\<open>main\<close>.
\<close>

theorem main_catches:
  "snd (snd (main w con)) = Inr ()
   \<and> (snd (snd (main_try w con)) = Inl e
        \<longrightarrow> last (fst (main w con)) = (CRITICAL, ''ETL process failed: '' @ str_error e))
   \<and> (snd (gdp_extract (w_page w) table_attribs) = Inl e
        \<longrightarrow> snd (snd (gdp_main w con)) = Inl e)
   \<and> (snd (gdp_extract (w_page w) table_attribs) = Inr df
        \<longrightarrow> (snd (gdp_transform df) = Inl e \<longrightarrow> snd (snd (gdp_main w con)) = Inl e)
          \<and> (snd (gdp_transform df) = Inr df'
               \<longrightarrow> (w_to_csv w = Some e \<longrightarrow> snd (snd (gdp_main w con)) = Inl e)
                 \<and> (w_to_csv w = None
                      \<longrightarrow> (w_connect w = Some e \<longrightarrow> snd (snd (gdp_main w con)) = Inl e)
                        \<and> (w_connect w = None
                             \<longrightarrow> (w_to_sql w = Some e \<longrightarrow> snd (snd (gdp_main w con)) = Inl e)
                               \<and> (w_to_sql w = None
                                    \<and> w_read_sql w (''SELECT * from '' @ table_name
                                          @ '' WHERE GDP_USD_billions >= 100'') = Some e
                                    \<longrightarrow> snd (snd (gdp_main w con)) = Inl e)))))"
  by (auto simp: main_def gdp_main_def gdp_load_to_csv_def gdp_load_to_db_def gdp_run_query_def
      Let_def split: prod.splits sum.splits option.splits)

theorem main_catches_witness:
  "snd (snd (main offline (\<lambda>t. None))) = Inr ()
   \<and> last (fst (main offline (\<lambda>t. None))) = (CRITICAL, ''ETL process failed: RequestException'')
   \<and> snd (gdp_extract (w_page offline) table_attribs) = Inl RequestException"
proof -
  have t: "snd (snd (main_try offline (\<lambda>t. None))) = Inl RequestException"
    by (simp add: main_try_def offline_def quiet_def extract_data_def)
  have g: "snd (gdp_extract (w_page offline) table_attribs) = Inl RequestException"
    by (simp add: offline_def quiet_def gdp_extract_def)
  show ?thesis
    using main_catches [of offline "\<lambda>t. None" RequestException] t g by simp
qed

text \<open>
  C8 as stated fails in the GDP script: when the request for the page fails, the exception
  leaves \<^verbatim>\<open>main\<close>.
\<close>

theorem gdp_main_propagates_counterexample:
  "snd (snd (gdp_main offline (\<lambda>t. None))) = Inl RequestException"
  by (simp add: gdp_main_def offline_def quiet_def gdp_extract_def)

section \<open>The marker is no float\<close>

lemma in_dropWhile: "x \<in> set xs \<Longrightarrow> \<not> P x \<Longrightarrow> x \<in> set (dropWhile P xs)"
  by (induction xs) auto

lemma in_strip: "c \<in> set s \<Longrightarrow> \<not> isspace c \<Longrightarrow> c \<in> set (strip s)"
  by (simp add: strip_def in_dropWhile)

lemma strip_subset: "c \<in> set (strip s) \<Longrightarrow> c \<in> set s"
proof -
  assume "c \<in> set (strip s)"
  then have "c \<in> set (dropWhile isspace (rev (dropWhile isspace s)))" by (simp add: strip_def)
  then have "c \<in> set (rev (dropWhile isspace s))" by (rule set_dropWhileD)
  then have "c \<in> set (dropWhile isspace s)" by simp
  then show "c \<in> set s" by (rule set_dropWhileD)
qed

lemma em_dash_strip: "em_dash \<in> set (strip s) \<longleftrightarrow> em_dash \<in> set s"
  using in_strip [of em_dash s] strip_subset [of em_dash s] by (auto simp: isspace_def em_dash_def)

lemma em_dash_remove_commas: "em_dash \<in> set (remove_commas s) \<longleftrightarrow> em_dash \<in> set s"
  by (auto simp: remove_commas_def em_dash_def)

lemma em_dash_to_ascii: "\<not> em_dash < 128 \<and> \<not> isspace em_dash \<and> to_decimal em_dash = None"
  by (simp add: to_decimal_def decimal_zeros_def em_dash_def isspace_def)

lemma to_ascii_em_dash: "em_dash \<in> set s \<Longrightarrow> 63 \<in> set (to_ascii s)"
  by (induction s) (auto simp: em_dash_to_ascii split: option.splits)

lemma in_strip_ascii: "c \<in> set s \<Longrightarrow> \<not> py_isspace c \<Longrightarrow> c \<in> set (strip_ascii s)"
  by (simp add: strip_ascii_def in_dropWhile)

lemma digitpart_ascii: "digitpart d \<Longrightarrow> c \<in> set d \<Longrightarrow> float_char c"
  by (induction d rule: digitpart.induct) (auto simp: float_char_def split: if_splits)

lemma split_on_None: "split_on p s = (a, None) \<Longrightarrow> s = a"
proof -
  assume "split_on p s = (a, None)"
  then have "a = takeWhile (\<lambda>c. \<not> p c) s" "dropWhile (\<lambda>c. \<not> p c) s = []"
    by (auto simp: split_on_def split: list.splits)
  then show "s = a" by (metis takeWhile_dropWhile_id append_Nil2)
qed

lemma split_on_Some: "split_on p s = (a, Some r) \<Longrightarrow> \<exists>x. p x \<and> s = a @ x # r"
proof -
  assume h: "split_on p s = (a, Some r)"
  then obtain x where d: "dropWhile (\<lambda>c. \<not> p c) s = x # r" and a: "a = takeWhile (\<lambda>c. \<not> p c) s"
    by (auto simp: split_on_def split: list.splits)
  from d have "p x" using hd_dropWhile [of "\<lambda>c. \<not> p c" s] by auto
  moreover have "s = a @ x # r" using a d takeWhile_dropWhile_id [of "\<lambda>c. \<not> p c" s] by simp
  ultimately show ?thesis by blast
qed

lemma split_sign_ascii:
  "split_sign s = (neg, r) \<Longrightarrow> c \<in> set s \<Longrightarrow> c \<in> set r \<or> float_char c"
  by (auto simp: split_sign_def float_char_def split: list.splits if_splits)

lemma parse_number_ascii:
  assumes "parse_number s = Some q" "c \<in> set s"
  shows "float_char c"
proof -
  obtain m ex where 1: "split_on (\<lambda>c. c = 101 \<or> c = 69) s = (m, ex)" by force
  obtain ip fp where 2: "split_on (\<lambda>c. c = 46) m = (ip, fp)" by force
  have ipa: "\<And>x. x \<in> set ip \<Longrightarrow> float_char x"
    using assms(1) 1 2
    by (auto simp: parse_number_def Let_def digitpart_ascii split: if_splits option.splits)
  have ma: "\<And>x. x \<in> set m \<Longrightarrow> float_char x"
  proof (cases fp)
    case None
    with 2 have "m = ip" by (simp add: split_on_None)
    then show "\<And>x. x \<in> set m \<Longrightarrow> float_char x" using ipa by simp
  next
    case (Some f)
    with 2 obtain x where x: "x = 46" "m = ip @ x # f" using split_on_Some by blast
    have "\<And>y. y \<in> set f \<Longrightarrow> float_char y"
      using assms(1) 1 2 Some
      by (auto simp: parse_number_def Let_def digitpart_ascii split: if_splits option.splits)
    then show "\<And>x. x \<in> set m \<Longrightarrow> float_char x" using ipa x by (auto simp: float_char_def)
  qed
  show ?thesis
  proof (cases ex)
    case None
    with 1 have "s = m" by (simp add: split_on_None)
    then show ?thesis using ma assms(2) by simp
  next
    case (Some e)
    with 1 obtain x where x: "x = 101 \<or> x = 69" "s = m @ x # e" using split_on_Some by blast
    obtain neg ed where 3: "split_sign e = (neg, ed)" by force
    have "digitpart ed"
      using assms(1) 1 2 3 Some
      by (auto simp: parse_number_def Let_def split: if_splits option.splits)
    then have "\<And>y. y \<in> set e \<Longrightarrow> float_char y"
      using split_sign_ascii [OF 3] digitpart_ascii by blast
    then show ?thesis using ma x assms(2) by (auto simp: float_char_def)
  qed
qed

lemma py_float_em_dash:
  assumes "em_dash \<in> set s"
  shows "py_float s = Inl ValueError"
proof -
  obtain neg r where 1: "split_sign (strip_ascii (to_ascii s)) = (neg, r)" by force
  have q: "\<not> float_char 63" by (simp add: float_char_def isdigit_def)
  have "63 \<in> set (to_ascii s)" using assms by (rule to_ascii_em_dash)
  then have "63 \<in> set (strip_ascii (to_ascii s))" by (simp add: in_strip_ascii py_isspace_def)
  then have r: "63 \<in> set r" using split_sign_ascii [OF 1, of 63] q by simp
  then have l: "63 \<in> set (map lower r)" by (force simp: lower_def)
  have "map lower r \<noteq> u ''inf''" "map lower r \<noteq> u ''infinity''" "map lower r \<noteq> u ''nan''"
    using l by (auto simp: u_def)
  moreover have "parse_number r = None"
    using parse_number_ascii [of r _ 63] r q by (cases "parse_number r") auto
  ultimately show ?thesis by (simp add: py_float_def 1)
qed

section \<open>The transformation of an extracted frame\<close>

lemma series_mul_Num: "series_mul (map (\<lambda>b. Num (f b)) bs) r = Inr (map (\<lambda>b. fmul (f b) r) bs)"
  by (induction bs) simp_all

lemma series_div_Num: "series_div (map (\<lambda>b. Num (f b)) bs) d = Inr (map (\<lambda>b. truediv (f b) d) bs)"
  by (induction bs) simp_all

lemma transform_data_DataFrame:
  assumes "banks \<noteq> []"
  shows "transform_data (DataFrame banks) (Inr conversion_rates) =
    ([(INFO, ''Starting data transformation.'')] @ warned conversion_rates ''GBP''
       @ warned conversion_rates ''EUR'' @ warned conversion_rates ''INR''
       @ [(INFO, ''Data transformation completed successfully.'')],
     Inr ([(''Bank Name'', map (\<lambda>b. Str (fst b)) banks),
           (''MC_USD_Billion'', map (\<lambda>b. Num (round2 (truediv (snd b) 1000))) banks)]
          @ converted conversion_rates banks ''GBP'' @ converted conversion_rates banks ''EUR''
          @ converted conversion_rates banks ''INR''))"
  using assms
  by (simp add: transform_data_def currencies_def DataFrame_def getitem_def market_cap_def
      series_mul_Num series_div_Num series_round_def rename_def converted_def warned_def
      split: list.splits)

lemma convert_empty:
  "snd (convert cs conversion_rates [] lg) = Inl KeyError
   \<or> snd (convert cs conversion_rates [] lg) = Inr []"
  by (induction cs arbitrary: lg) (auto simp: getitem_def split: list.splits)

lemma transform_data_empty:
  "snd (transform_data [] (Inr conversion_rates)) = Inl KeyError"
proof -
  obtain lg r where c:
    "convert currencies conversion_rates [] [(INFO, ''Starting data transformation.'')] = (lg, r)"
    by force
  with convert_empty [of currencies conversion_rates "[(INFO, ''Starting data transformation.'')]"]
  have "r = Inl KeyError \<or> r = Inr []" by simp
  then show ?thesis
    by (auto simp: transform_data_def c getitem_def)
qed

lemma floats_Num: "floats (map Num xs) = Inr xs"
  by (induction xs) simp_all

lemma astype_float_strs:
  "astype_float (map (\<lambda>r. Str (f r)) recs) = Inr ms
   \<Longrightarrow> length ms = length recs \<and> (\<forall>i < length recs. py_float (f (recs ! i)) = Inr (ms ! i))"
proof (induction recs arbitrary: ms)
  case Nil
  then show ?case by simp
next
  case (Cons r recs)
  then obtain x xs where 1: "py_float (f r) = Inr x" "astype_float (map (\<lambda>r. Str (f r)) recs) = Inr xs"
    "ms = x # xs"
    by (auto split: sum.splits)
  from Cons.IH [OF 1(2)] 1 show ?case
    by (auto simp: nth_Cons split: nat.splits)
qed

lemma gdp_transform_frame:
  assumes "snd (gdp_transform (gdp_frame recs)) = Inr df'"
  shows "\<exists>ms. astype_float (map (\<lambda>r. Str (remove_commas (snd r))) recs) = Inr ms
          \<and> df' = [(''Country'', map (\<lambda>r. Str (fst r)) recs),
                   (''GDP_USD_billions'', map (\<lambda>x. Num (round2 (truediv x 1000))) ms)]"
proof -
  have m: "map replace_commas (map (\<lambda>r. Str (snd r)) recs)
           = map (\<lambda>r. Str (remove_commas (snd r))) recs" by simp
  from assms obtain ms where
    a: "astype_float (map (\<lambda>r. Str (remove_commas (snd r))) recs) = Inr ms"
    by (auto simp: gdp_transform_def gdp_frame_def getitem_def m Let_def simp del: map_map
        split: sum.splits)
  have "floats (map (\<lambda>x. Num (truediv x 1000)) ms) = Inr (map (\<lambda>x. truediv x 1000) ms)"
    using floats_Num [of "map (\<lambda>x. truediv x 1000) ms"] by (simp add: comp_def)
  with assms a show ?thesis
    by (simp add: gdp_transform_def gdp_frame_def getitem_def m drop_column_def
        series_round_def comp_def del: map_map) auto
qed

section \<open>The extraction loops\<close>

lemma extract_rows_from_row:
  "extract_rows rows banks = Inr out
   \<Longrightarrow> \<exists>new. out = banks @ new \<and> list_all2 from_row (filter (\<lambda>cols. cols \<noteq> []) rows) new"
proof (induction rows arbitrary: banks)
  case Nil
  then show ?case by simp
next
  case (Cons cols rows)
  show ?case
  proof (cases "cols = []")
    case True
    with Cons show ?thesis by simp
  next
    case False
    with Cons.prems obtain x where
      l: "2 < length cols" and
      f: "py_float (remove_commas (strip (td_text (cols ! 2)))) = Inr x" and
      r: "extract_rows rows (banks @ [(strip (td_text (cols ! 1)), x)]) = Inr out"
      by (auto simp: index_def Let_def split: if_splits sum.splits)
    from Cons.IH [OF r] obtain new where
      n: "out = (banks @ [(strip (td_text (cols ! 1)), x)]) @ new"
        "list_all2 from_row (filter (\<lambda>cols. cols \<noteq> []) rows) new" by blast
    have "from_row cols (strip (td_text (cols ! 1)), x)"
      using l f by (simp add: from_row_def)
    with n False show ?thesis by auto
  qed
qed

lemma extract_data_Inr:
  assumes "snd (extract_data response) = Inr df"
  shows "\<exists>rows tables banks. response = Inr (rows # tables) \<and> df = DataFrame banks
          \<and> list_all2 from_row (filter (\<lambda>cols. cols \<noteq> []) rows) banks"
proof -
  from assms obtain table rows banks where
    1: "response = Inr table" "index table 0 = Inr rows" "extract_rows rows [] = Inr banks"
      "df = DataFrame banks"
    by (auto simp: extract_data_def Let_def split: sum.splits)
  from 1(2) obtain tables where "table = rows # tables"
    by (cases table) (auto simp: index_def)
  with 1 extract_rows_from_row [OF 1(3)] show ?thesis by auto
qed

lemma extract_rows_sentinel:
  "cols \<in> set rows \<Longrightarrow> sentinel_row cols \<Longrightarrow> \<exists>e. extract_rows rows banks = Inl e"
proof (induction rows arbitrary: banks)
  case Nil
  then show ?case by simp
next
  case (Cons c rows)
  show ?case
  proof (cases "c = cols")
    case True
    have "em_dash \<in> set (remove_commas (strip (td_text (cols ! 2))))"
      using Cons.prems(2) by (simp add: sentinel_row_def em_dash_remove_commas em_dash_strip)
    then have "py_float (remove_commas (strip (td_text (cols ! 2)))) = Inl ValueError"
      by (rule py_float_em_dash)
    moreover have "cols \<noteq> []" "1 < length cols" "2 < length cols"
      using Cons.prems(2) by (auto simp: sentinel_row_def)
    ultimately show ?thesis using True by (simp add: index_def)
  next
    case False
    with Cons.prems have "cols \<in> set rows" by simp
    from Cons.IH [OF this Cons.prems(2)] show ?thesis
      by (auto simp: Let_def split: sum.splits)
  qed
qed

lemma concat_row_gdp_frame:
  "concat_row (gdp_frame recs) [(''Country'', Str c), (''GDP_USD_millions'', Str g)]
     = gdp_frame (recs @ [(c, g)])"
  by (simp add: concat_row_def gdp_frame_def)

lemma gdp_extract_rows_from_row:
  "gdp_extract_rows rows (gdp_frame recs) = Inr df
   \<Longrightarrow> \<exists>new. df = gdp_frame (recs @ new) \<and> list_all2 gdp_from_row (filter gdp_takes rows) new"
proof (induction rows arbitrary: recs)
  case Nil
  then show ?case by simp
next
  case (Cons col rows)
  show ?case
  proof (cases "gdp_takes col")
    case False
    with Cons.prems have "gdp_extract_rows rows (gdp_frame recs) = Inr df"
      by (auto simp: gdp_takes_def index_def split: if_splits option.splits sum.splits)
    from Cons.IH [OF this] False show ?thesis by simp
  next
    case True
    with Cons.prems obtain contents where
      c: "td_a (col ! 0) = Some contents" "contents \<noteq> []" "2 < length col" and
      r: "gdp_extract_rows rows
            (concat_row (gdp_frame recs)
               [(''Country'', Str (contents ! 0)),
                (''GDP_USD_millions'', Str (strip (td_text (col ! 2))))]) = Inr df"
      by (auto simp: gdp_takes_def index_def split: if_splits option.splits sum.splits)
    from r have "gdp_extract_rows rows
        (gdp_frame (recs @ [(contents ! 0, strip (td_text (col ! 2)))])) = Inr df"
      by (simp only: concat_row_gdp_frame)
    from Cons.IH [OF this] obtain new where
      n: "df = gdp_frame ((recs @ [(contents ! 0, strip (td_text (col ! 2)))]) @ new)"
        "list_all2 gdp_from_row (filter gdp_takes rows) new" by blast
    have "gdp_from_row col (contents ! 0, strip (td_text (col ! 2)))"
      using c True by (simp add: gdp_from_row_def gdp_takes_def)
    with n True show ?thesis by auto
  qed
qed

lemma gdp_extract_rows_sentinel:
  "gdp_extract_rows (filter (\<lambda>col. \<not> sentinel_row col) rows) df = gdp_extract_rows rows df"
proof (induction rows arbitrary: df)
  case Nil
  then show ?case by simp
next
  case (Cons col rows)
  show ?case
  proof (cases "sentinel_row col")
    case False
    with Cons show ?thesis by (simp split: sum.splits option.splits)
  next
    case True
    then have "2 < length col" "em_dash \<in> set (strip (td_text (col ! 2)))"
      by (simp_all add: sentinel_row_def em_dash_strip)
    then have "gdp_extract_rows (col # rows) df = gdp_extract_rows rows df"
      by (auto simp: index_def split: option.splits)
    with True Cons show ?thesis by simp
  qed
qed

section \<open>Evaluation of the concrete inputs\<close>

lemmas py_eval = py_float_def strip_def u_def isspace_def split_sign_def parse_number_def
  split_on_def Let_def isdigit_def lower_def digits_val_def remove_commas_def em_dash_def
  strip_ascii_def py_isspace_def to_decimal_def decimal_zeros_def

lemmas cells = cell_def link_cell_def dash_cell_def index_def


lemma fl_rate: "fl (79 / 100) = Finite (889460926405673 / 1125899906842624)"
  using fl_small [of "79 / 100" 53 "7115687411245383"] by simp

lemma fl_1000: "fl (1000) = Finite (1000)"
  using fl_small [of "1000" 43 "8796093022208000"] by simp

lemma fl_500_5: "fl (1001 / 2) = Finite (1001 / 2)"
  using fl_small [of "1001 / 2" 44 "8804889115230208"] by simp

lemma fl_minus_5: "fl (- 5) = Finite (- 5)"
  using fl_small [of "- 5" 50 "- 5629499534213120"] by simp

lemma fl_3736882: "fl (3736882) = Finite (3736882)"
  using fl_small [of "3736882" 31 "8024892989505536"] by simp

lemma fl_1: "fl (1) = Finite (1)"
  using fl_small [of "1" 52 "4503599627370496"] by simp

lemma fl_0_5: "fl (1 / 2) = Finite (1 / 2)"
  using fl_small [of "1 / 2" 53 "4503599627370496"] by simp

lemma fl_790: "fl (790) = Finite (790)"
  using fl_small [of "790" 43 "6948913487544320"] by simp

lemma round_1_scaled: "fl (100) = Finite (100)"
  using fl_small [of "100" 46 "7036874417766400"] by simp

lemma round_1_rint: "rint (100) = 100"
  using rint_between [of "100" "100"] by simp

lemma round_C_quotient: "fl (1001 / 2000) = Finite (2254051613498933 / 4503599627370496)"
  using fl_small [of "1001 / 2000" 53 "4508103226997866"] by simp

lemma round_C_scaled: "fl (56351290337473325 / 1125899906842624) = Finite (3521955646092083 / 70368744177664)"
  using fl_small [of "56351290337473325 / 1125899906842624" 47 "7043911292184165"] by simp

lemma round_C_rint: "rint (3521955646092083 / 70368744177664) = 50"
  using rint_between [of "50" "3521955646092083 / 70368744177664"] by simp

lemma round_A_gbp_product: "fl (111182615800709125 / 140737488355328) = Finite (790)"
  using fl_small [of "111182615800709125 / 140737488355328" 43 "6948913487544320"] by simp

lemma round_A_gbp_scaled: "fl (79000) = Finite (79000)"
  using fl_small [of "79000" 36 "5428838662144000"] by simp

lemma round_A_gbp_rint: "rint (79000) = 79000"
  using rint_between [of "79000" "79000"] by simp

lemma round_C_gbp_product: "fl (890350387332078673 / 2251799813685248) = Finite (6955862401031865 / 17592186044416)"
  using fl_small [of "890350387332078673 / 2251799813685248" 44 "6955862401031864"] by simp

lemma round_C_gbp_scaled: "fl (173896560025796625 / 4398046511104) = Finite (5434267500806145 / 137438953472)"
  using fl_small [of "173896560025796625 / 4398046511104" 37 "5434267500806144"] by simp

lemma round_C_gbp_rint: "rint (5434267500806145 / 137438953472) = 39540"
  using rint_between [of "39539" "5434267500806145 / 137438953472"] by simp

lemma round_C_gbp_rounded: "fl (1977 / 5) = Finite (3477975180981043 / 8796093022208)"
  using fl_small [of "1977 / 5" 44 "6955950361962086"] by simp

lemma round_india_quotient: "fl (1868441 / 500) = Finite (8217490421253669 / 2199023255552)"
  using fl_small [of "1868441 / 500" 41 "8217490421253668"] by simp

lemma round_india_scaled: "fl (205437260531341725 / 549755813888) = Finite (6419914391604429 / 17179869184)"
  using fl_small [of "205437260531341725 / 549755813888" 34 "6419914391604428"] by simp

lemma round_india_rint: "rint (6419914391604429 / 17179869184) = 373688"
  using rint_between [of "373688" "6419914391604429 / 17179869184"] by simp

lemma round_india_rounded: "fl (93422 / 25) = Finite (4108743011603579 / 1099511627776)"
  using fl_small [of "93422 / 25" 41 "8217486023207157"] by simp




lemma round_545_quotient: "fl (109 / 200) = Finite (4908923593833841 / 9007199254740992)"
  using fl_small [of "109 / 200" 53 "4908923593833840"] by simp

lemma round_545_scaled: "fl (122723089845846025 / 2251799813685248) = Finite (7670193115365377 / 140737488355328)"
  using fl_small [of "122723089845846025 / 2251799813685248" 47 "7670193115365376"] by simp

lemma round_545_rint: "rint (7670193115365377 / 140737488355328) = 55"
  using rint_between [of "54" "7670193115365377 / 140737488355328"] by simp

lemma round_545_rounded: "fl (11 / 20) = Finite (2476979795053773 / 4503599627370496)"
  using fl_small [of "11 / 20" 53 "4953959590107545"] by simp

lemma round_5_5_gbp_product: "fl (9784070190462403 / 2251799813685248) = Finite (2446017547615601 / 562949953421312)"
  using fl_small [of "9784070190462403 / 2251799813685248" 50 "4892035095231201"] by simp

lemma round_5_5_gbp_scaled: "fl (61150438690390025 / 140737488355328) = Finite (7643804836298753 / 17592186044416)"
  using fl_small [of "61150438690390025 / 140737488355328" 44 "7643804836298753"] by simp

lemma round_5_5_gbp_rint: "rint (7643804836298753 / 17592186044416) = 435"
  using rint_between [of "434" "7643804836298753 / 17592186044416"] by simp

lemma round_5_5_gbp_rounded: "fl (87 / 20) = Finite (2448832297382707 / 562949953421312)"
  using fl_small [of "87 / 20" 50 "4897664594765414"] by simp

lemma round_500_5_scaled: "fl (50050) = Finite (50050)"
  using fl_small [of "50050" 37 "6878819621273600"] by simp

lemma round_500_5_rint: "rint (50050) = 50050"
  using rint_between [of "50050" "50050"] by simp


lemma round_A: "round2 (truediv (Finite 1000) 1000) = Finite 1"
  by (simp add: fl_1 round_1_scaled round_1_rint)

lemma round_C: "round2 (truediv (Finite (1001 / 2)) 1000) = Finite (1 / 2)"
  by (simp add: round_C_quotient round_C_scaled round_C_rint fl_0_5)

lemma round_A_gbp: "round2 (fmul (Finite 1000) (fl (79 / 100))) = Finite 790"
  by (simp add: fl_rate round_A_gbp_product round_A_gbp_scaled round_A_gbp_rint fl_790)

lemma round_C_gbp: "round2 (fmul (Finite (1001 / 2)) (fl (79 / 100))) = fl (3954 / 10)"
  by (simp add: fl_rate round_C_gbp_product round_C_gbp_scaled round_C_gbp_rint round_C_gbp_rounded)

lemma round_india: "round2 (truediv (Finite 3736882) 1000) = fl (373688 / 100)"
  by (simp add: round_india_quotient round_india_scaled round_india_rint round_india_rounded)


lemma round_545: "round2 (truediv (Finite 545) 1000) = fl (55 / 100)"
  by (simp add: round_545_quotient round_545_scaled round_545_rint round_545_rounded)

lemma round_5_5_gbp: "round2 (fmul (Finite (55 / 10)) (fl (79 / 100))) = fl (435 / 100)"
  by (simp add: fl_rate round_5_5_gbp_product round_5_5_gbp_scaled round_5_5_gbp_rint round_5_5_gbp_rounded)

lemma round_500_5: "round2 (Finite (1001 / 2)) = Finite (1001 / 2)"
  by (simp add: round_500_5_scaled round_500_5_rint fl_500_5)

lemma extract_two_rows: "snd (extract_data (Inr [two_rows])) = Inr (DataFrame two_banks)"
  by (simp add: extract_data_def two_rows_def two_banks_def cells py_eval fl_1000 fl_500_5)

lemma extract_three_rows: "extract_data (Inr [three_rows])
    = ([(INFO, ''Starting data extraction.''), (ERROR, ''Error during extraction: ValueError'')],
       Inl ValueError)"
  by (simp add: extract_data_def three_rows_def cells py_eval)

lemma extract_three_pairs: "snd (extract_data (Inr [three_pairs])) = Inl IndexError"
  by (simp add: extract_data_def three_pairs_def cells py_eval)

lemma extract_odd_row: "snd (extract_data (Inr [[odd_row]]))
    = Inr [(''Bank Name'', [Str []]), (''Market Cap (USD)'', [Num (Finite (- 5))])]"
  by (simp add: extract_data_def odd_row_def cells py_eval DataFrame_def fl_minus_5)

lemma gdp_extract_gdp_rows: "gdp_extract (Inr [[], [], gdp_rows]) table_attribs
    = ([], Inr (gdp_frame [(u ''India'', u ''3,736,882'')]))"
  by (simp add: gdp_extract_def gdp_rows_def table_attribs_def cells py_eval concat_row_def
      gdp_frame_def len_def)

lemma transform_two_banks:
  "snd (transform_data (DataFrame two_banks) (Inr gbp_only))
     = Inr [(''Bank Name'', [Str (u ''Bank A''), Str (u ''Bank C'')]),
            (''MC_USD_Billion'', [Num (Finite 1), Num (Finite (1 / 2))]),
            (''Market Cap (GBP)'', [Num (Finite 790), Num (fl (3954 / 10))])]"
proof -
  have r: "rate_row gbp_only ''GBP'' = [fl (79 / 100)]" "rate_row gbp_only ''EUR'' = []"
    "rate_row gbp_only ''INR'' = []"
    by (simp_all add: rate_row_def gbp_only_def u_def)
  have "two_banks \<noteq> []" by (simp add: two_banks_def)
  from transform_data_DataFrame [OF this, of gbp_only] show ?thesis
    by (simp add: converted_def r market_cap_def two_banks_def round_A round_C round_A_gbp
        round_C_gbp del: round2.simps fmul.simps truediv.simps)
qed


lemma float_india: "py_float (remove_commas (u ''3,736,882'')) = Inr (Finite 3736882)"
  by (simp add: py_eval fl_3736882)

lemma transform_india:
  "snd (gdp_transform (gdp_frame india))
     = Inr [(''Country'', [Str (u ''India'')]), (''GDP_USD_billions'', [Num (fl (373688 / 100))])]"
  using float_india
  by (simp add: gdp_transform_def gdp_frame_def india_def getitem_def drop_column_def
      series_round_def round_india del: round2.simps truediv.simps)

section \<open>Rounding twice\<close>




section \<open>The values of the transformed frame\<close>

text \<open>
  C1, as the code has it. For every record \<open>i\<close> of an extracted bank frame with magnitude \<open>m\<close>,
  the transformation returns a frame in which the rescaled field of the record is \<open>m / 1000\<close>
  rounded to two places and, for every requested currency with a rate \<open>r\<close> in the table, the
  field of that currency is \<open>m * r\<close> rounded to two places: the product is taken from the
  magnitude before the division. In a frame returned by the GDP transformation the field of
  record \<open>i\<close> is its parsed figure divided by 1000 and rounded to two places. Quotient, product
  and rounding are the binary64 operations of the code. For the table of the scenario without
  the row of Bank B and the rate 0.79 for GBP the output is exactly (Bank A, 1.0, 790.0) and
  (Bank C, 0.5, 395.4), each number the float nearest to the decimal.
\<close>

theorem transform_data_values:
  "(i < length banks
      \<longrightarrow> (\<exists>df' billions.
             snd (transform_data (DataFrame banks) (Inr conversion_rates)) = Inr df'
           \<and> map_of df' ''MC_USD_Billion'' = Some billions
           \<and> billions ! i = Num (round2 (truediv (snd (banks ! i)) 1000))
           \<and> (\<forall>currency\<in>set currencies. \<forall>rate rates.
                 rate_row conversion_rates currency = rate # rates
                 \<longrightarrow> (\<exists>col. map_of df' (market_cap currency) = Some col
                          \<and> col ! i = Num (round2 (fmul (snd (banks ! i)) rate))))))
   \<and> (i < length recs \<and> snd (gdp_transform (gdp_frame recs)) = Inr gdf
      \<longrightarrow> (\<exists>m billions. py_float (remove_commas (snd (recs ! i))) = Inr m
             \<and> map_of gdf ''GDP_USD_billions'' = Some billions
             \<and> billions ! i = Num (round2 (truediv m 1000))))
   \<and> snd (extract_data (Inr [two_rows])) = Inr (DataFrame two_banks)
   \<and> snd (transform_data (DataFrame two_banks) (Inr gbp_only))
       = Inr [(''Bank Name'', [Str (u ''Bank A''), Str (u ''Bank C'')]),
              (''MC_USD_Billion'', [Num (Finite 1), Num (Finite (1 / 2))]),
              (''Market Cap (GBP)'', [Num (Finite 790), Num (fl (3954 / 10))])]"
proof -
  have bank: "\<exists>df' billions.
             snd (transform_data (DataFrame banks) (Inr conversion_rates)) = Inr df'
           \<and> map_of df' ''MC_USD_Billion'' = Some billions
           \<and> billions ! i = Num (round2 (truediv (snd (banks ! i)) 1000))
           \<and> (\<forall>currency\<in>set currencies. \<forall>rate rates.
                 rate_row conversion_rates currency = rate # rates
                 \<longrightarrow> (\<exists>col. map_of df' (market_cap currency) = Some col
                          \<and> col ! i = Num (round2 (fmul (snd (banks ! i)) rate))))"
    if i: "i < length banks"
  proof -
    from i have "banks \<noteq> []" by auto
    from transform_data_DataFrame [OF this, of conversion_rates] i show ?thesis
      by (auto simp: currencies_def converted_def market_cap_def split: list.splits)
  qed
  have gdp: "\<exists>m billions. py_float (remove_commas (snd (recs ! i))) = Inr m
             \<and> map_of gdf ''GDP_USD_billions'' = Some billions
             \<and> billions ! i = Num (round2 (truediv m 1000))"
    if i: "i < length recs" and t: "snd (gdp_transform (gdp_frame recs)) = Inr gdf"
  proof -
    from gdp_transform_frame [OF t] obtain ms where
      ms: "astype_float (map (\<lambda>r. Str (remove_commas (snd r))) recs) = Inr ms"
        "gdf = [(''Country'', map (\<lambda>r. Str (fst r)) recs),
                (''GDP_USD_billions'', map (\<lambda>x. Num (round2 (truediv x 1000))) ms)]" by blast
    from astype_float_strs [OF ms(1)] i have
      "length ms = length recs" "py_float (remove_commas (snd (recs ! i))) = Inr (ms ! i)" by auto
    with ms(2) i show ?thesis by simp
  qed
  from bank gdp show ?thesis
    by (simp add: extract_two_rows transform_two_banks)
qed

theorem transform_data_values_witness:
  "(0 :: nat) < length two_banks \<and> (0 :: nat) < length india
   \<and> snd (gdp_transform (gdp_frame india))
       = Inr [(''Country'', [Str (u ''India'')]), (''GDP_USD_billions'', [Num (fl (373688 / 100))])]
   \<and> py_float (remove_commas (snd (india ! 0))) = Inr (Finite 3736882)
   \<and> snd (transform_data (DataFrame two_banks) (Inr gbp_only))
       = Inr [(''Bank Name'', [Str (u ''Bank A''), Str (u ''Bank C'')]),
              (''MC_USD_Billion'', [Num (Finite 1), Num (Finite (1 / 2))]),
              (''Market Cap (GBP)'', [Num (Finite 790), Num (fl (3954 / 10))])]"
proof -
  have h: "(0 :: nat) < length two_banks" "(0 :: nat) < length india"
    by (simp_all add: two_banks_def india_def)
  have f: "py_float (remove_commas (snd (india ! 0))) = Inr (Finite 3736882)"
    using float_india by (simp add: india_def)
  from transform_data_values [of 0 two_banks gbp_only india
      "[(''Country'', [Str (u ''India'')]), (''GDP_USD_billions'', [Num (fl (373688 / 100))])]"]
    h f transform_india
  show ?thesis by simp
qed

text \<open>
  C1 as stated fails at its scenario: with the row of Bank B the extraction of the bank script
  raises \<^verbatim>\<open>ValueError\<close> at the marker, and with rows of two cells it raises \<^verbatim>\<open>IndexError\<close>
  at the first row, so that there is no output.
\<close>

theorem scenario_counterexample:
  "snd (extract_data (Inr [three_rows])) = Inl ValueError
   \<and> snd (extract_data (Inr [three_pairs])) = Inl IndexError"
  by (simp add: extract_three_rows extract_three_pairs)

section \<open>A currency without a rate\<close>

text \<open>
  C4, as the code has it. For every extracted frame with at least one record and every
  exchange-rate table, the transformation returns a frame; for each requested currency without
  a rate it has logged the warning and the frame has no column of that currency, and for each
  requested currency with a rate the frame has the column computed with the first such rate.
\<close>

theorem missing_rate_skipped:
  assumes "banks \<noteq> []"
  shows "\<exists>lg df'. transform_data (DataFrame banks) (Inr conversion_rates) = (lg, Inr df')
     \<and> (\<forall>currency\<in>set currencies.
          (rate_row conversion_rates currency = []
             \<longrightarrow> (WARNING, ''No conversion rate found for '' @ currency @ ''. Skipping.'') \<in> set lg
               \<and> map_of df' (market_cap currency) = None)
        \<and> (\<forall>rate rates. rate_row conversion_rates currency = rate # rates
             \<longrightarrow> map_of df' (market_cap currency)
                 = Some (map (\<lambda>b. Num (round2 (fmul (snd b) rate))) banks)))"
  using transform_data_DataFrame [OF assms, of conversion_rates]
  by (auto simp: currencies_def converted_def warned_def market_cap_def split: list.splits)

theorem missing_rate_skipped_witness:
  "two_banks \<noteq> [] \<and> rate_row gbp_only ''EUR'' = []
   \<and> (\<exists>lg df'. transform_data (DataFrame two_banks) (Inr gbp_only) = (lg, Inr df')
         \<and> (WARNING, ''No conversion rate found for EUR. Skipping.'') \<in> set lg
         \<and> map_of df' (market_cap ''EUR'') = None
         \<and> map_of df' (market_cap ''GBP'')
             = Some (map (\<lambda>b. Num (round2 (fmul (snd b) (fl (79 / 100))))) two_banks))"
proof -
  have h: "two_banks \<noteq> []" by (simp add: two_banks_def)
  have r: "rate_row gbp_only ''GBP'' = [fl (79 / 100)]" "rate_row gbp_only ''EUR'' = []"
    by (simp_all add: rate_row_def gbp_only_def u_def)
  from missing_rate_skipped [OF h, of gbp_only] obtain lg df' where
    t: "transform_data (DataFrame two_banks) (Inr gbp_only) = (lg, Inr df')" and
    a: "\<forall>currency\<in>set currencies.
          (rate_row gbp_only currency = []
             \<longrightarrow> (WARNING, ''No conversion rate found for '' @ currency @ ''. Skipping.'') \<in> set lg
               \<and> map_of df' (market_cap currency) = None)
        \<and> (\<forall>rate rates. rate_row gbp_only currency = rate # rates
             \<longrightarrow> map_of df' (market_cap currency)
                 = Some (map (\<lambda>b. Num (round2 (fmul (snd b) rate))) two_banks))" by blast
  have "''EUR'' \<in> set currencies" "''GBP'' \<in> set currencies" by (simp_all add: currencies_def)
  with a r have "(WARNING, ''No conversion rate found for EUR. Skipping.'') \<in> set lg"
    "map_of df' (market_cap ''EUR'') = None"
    "map_of df' (market_cap ''GBP'')
             = Some (map (\<lambda>b. Num (round2 (fmul (snd b) (fl (79 / 100))))) two_banks)"
    by force+
  with t h r show ?thesis by blast
qed

text \<open>
  C4 as stated fails for the frame that the extraction returns when no row has cells: it has
  no columns, and the transformation raises \<^verbatim>\<open>KeyError\<close>, here with no rate for any currency.
\<close>

theorem empty_dataset_counterexample:
  "snd (extract_data (Inr [[[]]])) = Inr [] \<and> rate_row [] ''GBP'' = []
   \<and> snd (transform_data [] (Inr [])) = Inl KeyError"
  by (simp add: transform_data_empty extract_data_def index_def DataFrame_def rate_row_def)

section \<open>The order of the columns\<close>

text \<open>
  C10. For every frame that the extraction returns, either the frame has no records and the
  transformation raises \<^verbatim>\<open>KeyError\<close>, or the transformation returns a frame whose columns
  are, in this order, "Bank Name", "MC_USD_Billion" and then "Market Cap (C)" for each of GBP,
  EUR, INR that has a rate, in that order.
\<close>

theorem transform_data_column_order:
  assumes "snd (extract_data response) = Inr df"
  shows "(df = [] \<and> snd (transform_data df (Inr conversion_rates)) = Inl KeyError)
       \<or> (\<exists>df'. snd (transform_data df (Inr conversion_rates)) = Inr df'
             \<and> map fst df' = [''Bank Name'', ''MC_USD_Billion'']
                 @ map market_cap (filter (\<lambda>c. rate_row conversion_rates c \<noteq> []) currencies))"
proof -
  from extract_data_Inr [OF assms] obtain banks where b: "df = DataFrame banks" by blast
  show ?thesis
  proof (cases "banks = []")
    case True
    with b show ?thesis by (simp add: DataFrame_def transform_data_empty)
  next
    case False
    from transform_data_DataFrame [OF this, of conversion_rates] b show ?thesis
      by (auto simp: currencies_def converted_def market_cap_def split: list.splits)
  qed
qed

theorem transform_data_column_order_witness:
  "snd (extract_data (Inr [two_rows])) = Inr (DataFrame two_banks)
   \<and> (\<exists>df'. snd (transform_data (DataFrame two_banks) (Inr gbp_only)) = Inr df'
         \<and> map fst df' = [''Bank Name'', ''MC_USD_Billion'', ''Market Cap (GBP)''])"
proof -
  have r: "rate_row gbp_only ''GBP'' = [fl (79 / 100)]" "rate_row gbp_only ''EUR'' = []"
    "rate_row gbp_only ''INR'' = []"
    by (simp_all add: rate_row_def gbp_only_def u_def)
  have n: "DataFrame two_banks \<noteq> []" by (simp add: DataFrame_def two_banks_def)
  from transform_data_column_order [OF extract_two_rows, of gbp_only] n r show ?thesis
    by (simp add: extract_two_rows currencies_def market_cap_def)
qed


section \<open>Rows with the marker\<close>

text \<open>
  C2, as the code has it. The GDP script leaves out every row whose numeric cell contains the
  marker: its extraction gives the same result and the same log as on the table without these
  rows. The bank script has no test for the marker: when a row of its table has the marker in
  the numeric cell, the extraction raises and returns no frame.
\<close>

theorem sentinel_rows:
  "gdp_extract (Inr (t0 # t1 # filter (\<lambda>col. \<not> sentinel_row col) rows # tables)) attribs
     = gdp_extract (Inr (t0 # t1 # rows # tables)) attribs
   \<and> (cols \<in> set rows \<and> sentinel_row cols
        \<longrightarrow> (\<exists>e. snd (extract_data (Inr (rows # tables))) = Inl e))"
proof -
  have "cols \<in> set rows \<Longrightarrow> sentinel_row cols
        \<Longrightarrow> \<exists>e. snd (extract_data (Inr (rows # tables))) = Inl e"
    using extract_rows_sentinel [of cols rows "[]"]
    by (auto simp: extract_data_def index_def Let_def)
  then show ?thesis
    by (auto simp: gdp_extract_def index_def gdp_extract_rows_sentinel)
qed

theorem sentinel_rows_witness:
  "[cell ''2'', cell ''Bank B'', dash_cell] \<in> set three_rows
   \<and> sentinel_row [cell ''2'', cell ''Bank B'', dash_cell]
   \<and> (\<exists>e. snd (extract_data (Inr [three_rows])) = Inl e)"
proof -
  have h: "[cell ''2'', cell ''Bank B'', dash_cell] \<in> set three_rows
      \<and> sentinel_row [cell ''2'', cell ''Bank B'', dash_cell]"
    by (simp add: three_rows_def sentinel_row_def dash_cell_def)
  with sentinel_rows [of "[]" "[]" three_rows "[]" "[]" "[cell ''2'', cell ''Bank B'', dash_cell]"]
  show ?thesis by blast
qed

text \<open>
  C2 as stated fails in the bank script: the second row of the scenario's table has the marker,
  and the extraction, instead of returning the records of the two other rows, logs the error
  and raises \<^verbatim>\<open>ValueError\<close>.
\<close>

theorem bank_sentinel_counterexample:
  "sentinel_row (three_rows ! 1)
   \<and> extract_data (Inr [three_rows])
       = ([(INFO, ''Starting data extraction.''),
           (ERROR, ''Error during extraction: ValueError'')], Inl ValueError)
   \<and> snd (extract_data (Inr [two_rows])) = Inr (DataFrame two_banks)"
proof -
  have "sentinel_row (three_rows ! 1)"
    by (simp add: three_rows_def sentinel_row_def dash_cell_def)
  then show ?thesis by (simp add: extract_three_rows extract_two_rows)
qed

section \<open>What an extracted record holds\<close>

text \<open>
  C3, as the code has it. A frame returned by the bank script's extraction holds one record for
  each row with cells, in order; each such row has at least three cells, the name is the
  stripped text of the second and the number is what \<^verbatim>\<open>float\<close> gives for the stripped text
  of the third without commas. A frame returned by the GDP script's extraction holds one
  record for each row taken, in order; each such row has at least three cells, the country is
  the first child of the link of the first cell and the figure is the stripped text of the
  third, unparsed and free of the marker.
\<close>

theorem extracted_records:
  "(snd (extract_data response) = Inr df
      \<longrightarrow> (\<exists>rows tables banks. response = Inr (rows # tables) \<and> df = DataFrame banks
             \<and> list_all2 from_row (filter (\<lambda>cols. cols \<noteq> []) rows) banks))
   \<and> (snd (gdp_extract response table_attribs) = Inr df
      \<longrightarrow> (\<exists>t0 t1 rows tables recs. response = Inr (t0 # t1 # rows # tables)
             \<and> df = gdp_frame recs
             \<and> list_all2 gdp_from_row (filter gdp_takes rows) recs))"
proof -
  have "\<exists>t0 t1 rows tables recs. response = Inr (t0 # t1 # rows # tables)
             \<and> df = gdp_frame recs
             \<and> list_all2 gdp_from_row (filter gdp_takes rows) recs"
    if g: "snd (gdp_extract response table_attribs) = Inr df"
  proof -
    from g obtain tables' rows where
      1: "response = Inr tables'" "index tables' 2 = Inr rows"
        "gdp_extract_rows rows (gdp_frame []) = Inr df"
      by (auto simp: gdp_extract_def gdp_frame_def table_attribs_def Let_def split: sum.splits)
    from 1(2) obtain t0 t1 tables where "tables' = t0 # t1 # rows # tables"
      by (cases tables'; cases "tl tables'"; cases "tl (tl tables')")
        (auto simp: index_def split: if_splits)
    with 1 gdp_extract_rows_from_row [OF 1(3)] show ?thesis by auto
  qed
  then show ?thesis using extract_data_Inr [of response df] by blast
qed

theorem extracted_records_witness:
  "snd (extract_data (Inr [two_rows])) = Inr (DataFrame two_banks)
   \<and> (\<exists>banks. DataFrame two_banks = DataFrame banks
         \<and> list_all2 from_row (filter (\<lambda>cols. cols \<noteq> []) two_rows) banks)
   \<and> snd (gdp_extract (Inr [[], [], gdp_rows]) table_attribs)
       = Inr (gdp_frame [(u ''India'', u ''3,736,882'')])"
proof -
  have g: "snd (gdp_extract (Inr [[], [], gdp_rows]) table_attribs)
       = Inr (gdp_frame [(u ''India'', u ''3,736,882'')])"
    by (simp add: gdp_extract_gdp_rows)
  from extracted_records [of "Inr [two_rows]" "DataFrame two_banks"] extract_two_rows g
  show ?thesis by auto
qed

text \<open>
  C3 as stated fails: from a row with a blank name and the figure -5 the bank script emits a
  record with the empty name and a negative number.
\<close>

theorem unvalidated_record_counterexample:
  "snd (extract_data (Inr [[odd_row]]))
    = Inr [(''Bank Name'', [Str []]), (''Market Cap (USD)'', [Num (Finite (- 5))])]"
  by (rule extract_odd_row)

end
